theory Spec2Isabelle
  imports Complex_Main "HOL-Library.Sublist" "HOL-Library.List_Lexorder"
begin

section \<open>Python strings\<close>

text \<open>
  A Python \<open>str\<close> is a sequence of Unicode code points; it is modelled as a list of
  naturals, so that the Japanese literals of the source are single elements and
  \<open>startswith\<close>, \<open>in\<close>, \<open>split\<close> and \<open>strip\<close> count what Python counts.
  An ASCII literal is written \<open>ascii ''Tore''\<close>.
\<close>

type_synonym pystr = "nat list"

abbreviation ascii :: "string \<Rightarrow> pystr" where
  "ascii s \<equiv> map of_char s"

text \<open>The code points for which \<open>str.isspace\<close> holds; \<open>strip()\<close> and \<open>split()\<close> use them.\<close>

definition is_space :: "nat \<Rightarrow> bool" where
  "is_space c \<longleftrightarrow>
     (9 \<le> c \<and> c \<le> 13) \<or> (28 \<le> c \<and> c \<le> 32) \<or> c = 133 \<or> c = 160 \<or> c = 5760 \<or>
     (8192 \<le> c \<and> c \<le> 8202) \<or> c = 8232 \<or> c = 8233 \<or> c = 8239 \<or> c = 8287 \<or> c = 12288"

definition py_strip :: "pystr \<Rightarrow> pystr" where
  "py_strip s = rev (dropWhile is_space (rev (dropWhile is_space s)))"

text \<open>\<open>s.split()\<close>: the maximal runs of non-whitespace, in order; \<open>cur\<close> is the run being read.\<close>

fun split_ws :: "pystr \<Rightarrow> pystr \<Rightarrow> pystr list" where
  "split_ws cur [] = (if cur = [] then [] else [cur])"
| "split_ws cur (c # cs) =
     (if is_space c then (if cur = [] then split_ws [] cs else cur # split_ws [] cs)
      else split_ws (cur @ [c]) cs)"

definition py_split :: "pystr \<Rightarrow> pystr list" where
  "py_split s = split_ws [] s"

text \<open>\<open>s.split(sep)\<close> for a one-character separator: empty pieces are kept.\<close>

fun split_chr :: "nat \<Rightarrow> pystr \<Rightarrow> pystr \<Rightarrow> pystr list" where
  "split_chr sep cur [] = [cur]"
| "split_chr sep cur (c # cs) =
     (if c = sep then cur # split_chr sep [] cs else split_chr sep (cur @ [c]) cs)"

definition split_lines :: "pystr \<Rightarrow> pystr list" where
  "split_lines s = split_chr 10 [] s"

text \<open>
  \<open>s.replace(old, new)\<close> for a non-empty \<open>old\<close> (the source only replaces the literals
  \<open>cir\<close>, \<open>CIR\<close>, \<open>Cir\<close> and \<open>Z\<close>): occurrences are replaced from the left, without
  overlap, and the replacement is not scanned again.
\<close>

fun py_replace :: "pystr \<Rightarrow> pystr \<Rightarrow> pystr \<Rightarrow> pystr" where
  "py_replace old new [] = []"
| "py_replace old new (c # cs) =
     (if prefix old (c # cs) then new @ py_replace old new (drop (length old - 1) cs)
      else c # py_replace old new cs)"

text \<open>
  \<open>s.upper()\<close> on the ASCII letters. The source only compares the result with the
  one-letter strings \<open>B\<close>, \<open>N\<close> and \<open>F\<close>; the only strings whose Python \<open>upper()\<close> is one
  of these are the letter itself and its ASCII lower case, so the comparisons agree with
  Python on every string.
\<close>

definition py_upper :: "pystr \<Rightarrow> pystr" where
  "py_upper s = map (\<lambda>c. if 97 \<le> c \<and> c \<le> 122 then c - 32 else c) s"

text \<open>\<open>sep.join(xs)\<close>.\<close>

fun py_join :: "pystr \<Rightarrow> pystr list \<Rightarrow> pystr" where
  "py_join sep [] = []"
| "py_join sep [x] = x"
| "py_join sep (x # y # ys) = x @ sep @ py_join sep (y # ys)"

text \<open>\<open>str(n)\<close> for an integer.\<close>

fun str_nat :: "nat \<Rightarrow> pystr" where
  "str_nat n = (if n < 10 then [48 + n] else str_nat (n div 10) @ [48 + n mod 10])"

declare str_nat.simps [simp del]

definition str_int :: "int \<Rightarrow> pystr" where
  "str_int i = (if i < 0 then 45 # str_nat (nat (- i)) else str_nat (nat i))"

section \<open>The literals of the source\<close>

definition basal_marker :: pystr where
  "basal_marker = [22522, 30990, 12452, 12531, 12473, 12522, 12531]"

definition tablet_marker :: pystr where
  "tablet_marker = [12406, 12393, 12358, 31958, 35036, 39135]"

definition snack_marker :: pystr where
  "snack_marker = [35036, 39135]"

definition tore_latin :: pystr where
  "tore_latin = ascii ''Tore ''"

definition tore_kana :: pystr where
  "tore_kana = [12488, 12524, 32]"

definition measured_label :: pystr where
  "measured_label = [23455, 28204, 58]"

definition dash :: pystr where
  "dash = ascii ''-''"

section \<open>Python floats\<close>

text \<open>
  \<open>round(x)\<close> on the exact value \<open>x\<close> of a float: Python rounds to the nearest
  integer and a tie to the even one.
\<close>

definition py_round :: "real \<Rightarrow> int" where
  "py_round x =
     (let f = \<lfloor>x\<rfloor>; d = x - of_int f
      in if d < 1 / 2 then f else if 1 / 2 < d then f + 1 else if even f then f else f + 1)"

text \<open>
  A Python float is an IEEE 754 double: a finite value, a negative zero, an infinity or
  a NaN. \<open>Fin 0\<close> is the positive zero.
\<close>

datatype pyfloat = Fin real | NegZero | PosInf | NegInf | NaN

text \<open>The power \<open>2\<^sup>e\<close> for an integer \<open>e\<close>.\<close>

definition pow2 :: "int \<Rightarrow> real" where
  "pow2 e = (if 0 \<le> e then 2 ^ nat e else 1 / 2 ^ nat (- e))"

text \<open>
  The exponent of the last place of the double nearest to a positive real \<open>a\<close>: doubles
  have 53 significant bits, and no exponent below that of the subnormal numbers.
\<close>

definition ulp_exp :: "real \<Rightarrow> int" where
  "ulp_exp a = max (\<lfloor>log 2 a\<rfloor> - 52) (- 1074)"

text \<open>
  The result of a float operation whose exact result is the real \<open>x\<close>: \<open>x\<close> rounded to
  the nearest double, a tie to the even one; an infinity beyond the largest double, and
  a zero with the sign of \<open>x\<close> below the smallest.
\<close>

definition to_double :: "real \<Rightarrow> pyfloat" where
  "to_double x =
     (if x = 0 then Fin 0
      else
        (let e = ulp_exp \<bar>x\<bar>;
             r = of_int (py_round (\<bar>x\<bar> / pow2 e)) * pow2 e
         in if pow2 1024 \<le> r then (if x < 0 then NegInf else PosInf)
            else if r = 0 then (if x < 0 then NegZero else Fin 0)
            else Fin (if x < 0 then - r else r)))"

text \<open>\<open>- x\<close>.\<close>

fun fneg :: "pyfloat \<Rightarrow> pyfloat" where
  "fneg (Fin a) = (if a = 0 then NegZero else Fin (- a))"
| "fneg NegZero = Fin 0"
| "fneg PosInf = NegInf"
| "fneg NegInf = PosInf"
| "fneg NaN = NaN"

text \<open>\<open>x + y\<close>.\<close>

fun fadd :: "pyfloat \<Rightarrow> pyfloat \<Rightarrow> pyfloat" where
  "fadd (Fin a) (Fin b) = (if a + b = 0 then Fin 0 else to_double (a + b))"
| "fadd (Fin a) NegZero = Fin a"
| "fadd NegZero (Fin b) = Fin b"
| "fadd NegZero NegZero = NegZero"
| "fadd NaN y = NaN"
| "fadd x NaN = NaN"
| "fadd PosInf NegInf = NaN"
| "fadd NegInf PosInf = NaN"
| "fadd PosInf y = PosInf"
| "fadd x PosInf = PosInf"
| "fadd NegInf y = NegInf"
| "fadd x NegInf = NegInf"

text \<open>
  \<open>x / y\<close> for a divisor \<open>y > 0\<close>: the source divides only under the test
  \<open>total_insulin > 0\<close>, and the values given here for another divisor are never used.
\<close>

fun fdiv :: "pyfloat \<Rightarrow> pyfloat \<Rightarrow> pyfloat" where
  "fdiv (Fin a) (Fin b) = (if a = 0 then Fin 0 else to_double (a / b))"
| "fdiv NegZero (Fin b) = NegZero"
| "fdiv PosInf (Fin b) = PosInf"
| "fdiv NegInf (Fin b) = NegInf"
| "fdiv (Fin a) PosInf = (if a < 0 then NegZero else Fin 0)"
| "fdiv NegZero PosInf = NegZero"
| "fdiv x y = NaN"

text \<open>\<open>x > 0\<close>: false for a NaN.\<close>

fun positive :: "pyfloat \<Rightarrow> bool" where
  "positive (Fin a) = (0 < a)"
| "positive PosInf = True"
| "positive x = False"

text \<open>\<open>1 <= x <= 3\<close>: false for a NaN.\<close>

fun snack_range :: "pyfloat \<Rightarrow> bool" where
  "snack_range (Fin a) = (1 \<le> a \<and> a \<le> 3)"
| "snack_range x = False"

text \<open>The truth value of a float: false for the two zeros only.\<close>

fun truthy :: "pyfloat \<Rightarrow> bool" where
  "truthy (Fin a) = (a \<noteq> 0)"
| "truthy NegZero = False"
| "truthy x = True"

text \<open>
  \<open>round(x, 2)\<close>: the exact value is rounded to two decimals, a tie to the even one,
  and the decimal result is read back as a double.
\<close>

fun py_round2 :: "pyfloat \<Rightarrow> pyfloat" where
  "py_round2 (Fin a) =
     (let r = of_int (py_round (a * 100)) / 100
      in if r = 0 then (if a < 0 then NegZero else Fin 0) else to_double r)"
| "py_round2 x = x"

text \<open>
  The format \<open>{x:.1f}\<close>: the exact value rounded to one decimal, a tie to the even one,
  with the sign of a negative value kept; \<open>inf\<close> and \<open>nan\<close> for the others.
\<close>

definition fmt1_finite :: "real \<Rightarrow> pystr" where
  "fmt1_finite x =
     (let n = nat (py_round (\<bar>x\<bar> * 10));
          body = str_nat (n div 10) @ [46] @ str_nat (n mod 10)
      in if x < 0 then 45 # body else body)"

fun fmt1 :: "pyfloat \<Rightarrow> pystr" where
  "fmt1 (Fin a) = fmt1_finite a"
| "fmt1 NegZero = ascii ''-0.0''"
| "fmt1 PosInf = ascii ''inf''"
| "fmt1 NegInf = ascii ''-inf''"
| "fmt1 NaN = ascii ''nan''"

section \<open>NoteParser\<close>

text \<open>
  The result dictionary of \<open>parse_notes\<close>. \<open>float(s)\<close> is a parameter \<open>pf\<close> of the
  model: \<open>pf s = None\<close> is the \<open>ValueError\<close> that the source catches.
\<close>

record parsed =
  cir :: "pyfloat option"
  predicted_insulin :: "pyfloat option"
  insulin_type :: "pystr option"
  foods :: "pystr list"
  basal_amount :: "pyfloat option"

definition empty_result :: parsed where
  "empty_result =
     \<lparr>cir = None, predicted_insulin = None, insulin_type = None, foods = [], basal_amount = None\<rparr>"

text \<open>\<open>float(parts[1])\<close> guarded by \<open>len(parts) >= 2\<close>.\<close>

definition second_float :: "(pystr \<Rightarrow> pyfloat option) \<Rightarrow> pystr list \<Rightarrow> pyfloat option" where
  "second_float pf parts = (case parts of _ # p1 # _ \<Rightarrow> pf p1 | _ \<Rightarrow> None)"

definition is_type_letter :: "pystr \<Rightarrow> bool" where
  "is_type_letter s \<longleftrightarrow> py_upper s = ascii ''N'' \<or> py_upper s = ascii ''F''"

text \<open>
  The handling of the second token of a ratio line, lines 140 to 149 of \<open>app.py\<close>.
  A token of \<open>split()\<close> is never empty, so \<open>second_part[-1]\<close> cannot raise; the test
  \<open>second_part \<noteq> []\<close> is the one the older file writes out.
\<close>

definition second_token :: "(pystr \<Rightarrow> pyfloat option) \<Rightarrow> pystr \<Rightarrow> parsed \<Rightarrow> parsed" where
  "second_token pf second_part r =
     (if second_part \<noteq> [] \<and> is_type_letter [last second_part]
      then r\<lparr>insulin_type := Some (py_upper [last second_part]),
              predicted_insulin := pf (butlast second_part)\<rparr>
      else r\<lparr>predicted_insulin := pf second_part\<rparr>)"

text \<open>
  The ratio branch, once \<open>parts\<close> has been computed: shared by both files, but for
  \<open>prep\<close>, which is \<open>.strip()\<close> in the older file (\<open>parts[1].strip()\<close>) and nothing
  in \<open>app.py\<close>.
\<close>

definition cir_branch ::
  "(pystr \<Rightarrow> pyfloat option) \<Rightarrow> (pystr \<Rightarrow> pystr) \<Rightarrow> pystr list \<Rightarrow> pystr list \<Rightarrow> pystr list \<Rightarrow>
     parsed" where
  "cir_branch pf prep parts all_lines rest =
     (case parts of
        [] \<Rightarrow> empty_result\<lparr>foods := all_lines\<rparr>
      | p0 # ps \<Rightarrow>
          (case pf p0 of
             None \<Rightarrow> empty_result\<lparr>foods := all_lines\<rparr>
           | Some x \<Rightarrow>
               (case ps of
                  [] \<Rightarrow> empty_result\<lparr>cir := Some x, foods := rest\<rparr>
                | p1 # _ \<Rightarrow> second_token pf (prep p1) (empty_result\<lparr>cir := Some x, foods := rest\<rparr>))))"

text \<open>The three branches that come before the ratio grammar: shared by both files.\<close>

definition marker_branch ::
  "(pystr \<Rightarrow> pyfloat option) \<Rightarrow> pystr \<Rightarrow> pystr list \<Rightarrow> parsed option" where
  "marker_branch pf first_line rest =
     (if prefix tore_latin first_line \<or> prefix tore_kana first_line
      then Some (empty_result\<lparr>foods := basal_marker # rest,
                               basal_amount := second_float pf (py_split first_line)\<rparr>)
      else if py_upper first_line = ascii ''B''
      then Some (empty_result\<lparr>foods := tablet_marker # rest\<rparr>)
      else if is_type_letter first_line
      then Some (empty_result\<lparr>insulin_type := Some (py_upper first_line), foods := rest\<rparr>)
      else None)"

text \<open>\<open>DataProcessor.parse_notes\<close> of \<open>app.py\<close>. An absent or null note is the empty string.\<close>

definition nonempty_lines :: "pystr list \<Rightarrow> pystr list" where
  "nonempty_lines ls = filter (\<lambda>l. l \<noteq> []) (map py_strip ls)"

definition parse_notes :: "(pystr \<Rightarrow> pyfloat option) \<Rightarrow> pystr \<Rightarrow> parsed" where
  "parse_notes pf notes_text =
     (if notes_text = [] then empty_result
      else
        (case nonempty_lines (split_lines (py_strip notes_text)) of
           [] \<Rightarrow> empty_result
         | first_line # rest \<Rightarrow>
             (case marker_branch pf first_line rest of
                Some r \<Rightarrow> r
              | None \<Rightarrow>
                  (let test_line =
                         py_strip (py_replace (ascii ''CIR'') []
                                     (py_replace (ascii ''cir'') [] first_line))
                   in cir_branch pf id (py_split test_line) (first_line # rest) rest))))"

text \<open>
  \<open>parse_notes\<close> of \<open>nightscout_web_app.py\<close>: the first line is taken before the empty
  lines are dropped, the spelling \<open>Cir\<close> is removed too, and the second token is stripped
  again.
\<close>

definition parse_notes_legacy :: "(pystr \<Rightarrow> pyfloat option) \<Rightarrow> pystr \<Rightarrow> parsed" where
  "parse_notes_legacy pf notes_text =
     (if notes_text = [] then empty_result
      else
        (case split_lines (py_strip notes_text) of
           [] \<Rightarrow> empty_result
         | l0 # ls \<Rightarrow>
             (let first_line = py_strip l0; rest = nonempty_lines ls in
              (case marker_branch pf first_line rest of
                 Some r \<Rightarrow> r
               | None \<Rightarrow>
                   (let test_line =
                          py_strip (py_replace (ascii ''Cir'') []
                                      (py_replace (ascii ''CIR'') []
                                         (py_replace (ascii ''cir'') [] first_line)))
                    in cir_branch pf py_strip (py_split test_line)
                         (nonempty_lines (l0 # ls)) rest)))))"

section \<open>Reading numbers\<close>

definition is_digit :: "nat \<Rightarrow> bool" where
  "is_digit c \<longleftrightarrow> 48 \<le> c \<and> c \<le> 57"

fun digits_val :: "nat \<Rightarrow> pystr \<Rightarrow> nat" where
  "digits_val acc [] = acc"
| "digits_val acc (c # cs) = digits_val (10 * acc + (c - 48)) cs"

text \<open>
  A concrete \<open>float(s)\<close>, used to run the model on concrete notes: surrounding
  whitespace, a sign, and then a plain decimal literal (\<open>12\<close>, \<open>4.5\<close>, \<open>.5\<close>, \<open>2.\<close>),
  read as the nearest double, or one of \<open>nan\<close>, \<open>inf\<close> and \<open>infinity\<close> in any case.
  Python accepts more (exponents, underscores); the general theorems below hold for
  every parser \<open>pf\<close> and do not depend on this one.
\<close>

definition unsigned_float :: "pystr \<Rightarrow> pyfloat option" where
  "unsigned_float s =
     (let ip = takeWhile is_digit s; r = dropWhile is_digit s
      in if py_upper s = ascii ''NAN'' then Some NaN
         else if py_upper s = ascii ''INF'' \<or> py_upper s = ascii ''INFINITY'' then Some PosInf
         else
           (case r of
              [] \<Rightarrow> if ip = [] then None else Some (to_double (of_nat (digits_val 0 ip)))
            | c # fp \<Rightarrow>
                if c = 46 \<and> list_all is_digit fp \<and> \<not> (ip = [] \<and> fp = [])
                then Some (to_double (of_nat (digits_val 0 ip) +
                                      of_nat (digits_val 0 fp) / 10 ^ length fp))
                else None))"

definition py_float :: "pystr \<Rightarrow> pyfloat option" where
  "py_float s =
     (case py_strip s of
        [] \<Rightarrow> None
      | c # cs \<Rightarrow>
          if c = 45 then map_option fneg (unsigned_float cs)
          else if c = 43 then unsigned_float cs
          else unsigned_float (c # cs))"

section \<open>Timestamps\<close>

text \<open>
  \<open>datetime.fromisoformat(s).timestamp()\<close> is a parameter \<open>fromiso\<close> of the model: the
  instant in seconds since the epoch, or \<open>None\<close> for the \<open>ValueError\<close> of an unparseable
  text. \<open>iso_timestamp\<close> is a concrete one for the texts
  \<open>YYYY-MM-DD?HH:MM:SS[.fff[fff]](+|-)HH:MM\<close>, used to run the model on concrete inputs.
\<close>

definition fixed_digits :: "nat \<Rightarrow> pystr \<Rightarrow> nat option" where
  "fixed_digits n s = (if length s = n \<and> list_all is_digit s then Some (digits_val 0 s) else None)"

definition is_leap :: "nat \<Rightarrow> bool" where
  "is_leap y \<longleftrightarrow> (if y mod 100 = 0 then y mod 400 = 0 else y mod 4 = 0)"

definition days_in_month :: "nat \<Rightarrow> nat \<Rightarrow> nat" where
  "days_in_month y m =
     (if m = 2 then (if is_leap y then 29 else 28)
      else if m = 4 \<or> m = 6 \<or> m = 9 \<or> m = 11 then 30 else 31)"

text \<open>The number of days from 1970-01-01 to the given date of the Gregorian calendar.\<close>

definition days_from_civil :: "nat \<Rightarrow> nat \<Rightarrow> nat \<Rightarrow> int" where
  "days_from_civil y m d =
     (let y' = (if m \<le> 2 then int y - 1 else int y);
          era = y' div 400;
          yoe = y' - era * 400;
          mp = (if 2 < m then int m - 3 else int m + 9);
          doy = (153 * mp + 2) div 5 + int d - 1;
          doe = yoe * 365 + yoe div 4 - yoe div 100 + doy
      in era * 146097 + doe - 719468)"

definition utc_offset :: "pystr \<Rightarrow> int option" where
  "utc_offset s =
     (case (fixed_digits 2 (take 2 (drop 1 s)), fixed_digits 2 (take 2 (drop 4 s))) of
        (Some h, Some m) \<Rightarrow>
          if length s = 6 \<and> take 1 (drop 3 s) = [58] \<and> h < 24 \<and> m < 60
          then (if take 1 s = [43] then Some (int (h * 3600 + m * 60))
                else if take 1 s = [45] then Some (- int (h * 3600 + m * 60))
                else None)
          else None
      | _ \<Rightarrow> None)"

definition iso_timestamp :: "pystr \<Rightarrow> real option" where
  "iso_timestamp s =
     (let has_frac = (take 1 (drop 19 s) = [46]);
          frac = (if has_frac then takeWhile is_digit (drop 20 s) else []);
          off_txt = (if has_frac then dropWhile is_digit (drop 20 s) else drop 19 s)
      in case those [fixed_digits 4 (take 4 s), fixed_digits 2 (take 2 (drop 5 s)),
                     fixed_digits 2 (take 2 (drop 8 s)), fixed_digits 2 (take 2 (drop 11 s)),
                     fixed_digits 2 (take 2 (drop 14 s)), fixed_digits 2 (take 2 (drop 17 s))] of
           Some [y, mo, d, h, mi, sec] \<Rightarrow>
             (case utc_offset off_txt of
                None \<Rightarrow> None
              | Some off \<Rightarrow>
                  if take 1 (drop 4 s) = [45] \<and> take 1 (drop 7 s) = [45] \<and>
                     take 1 (drop 13 s) = [58] \<and> take 1 (drop 16 s) = [58] \<and>
                     1 \<le> y \<and> 1 \<le> mo \<and> mo \<le> 12 \<and> 1 \<le> d \<and> d \<le> days_in_month y mo \<and>
                     h < 24 \<and> mi < 60 \<and> sec < 60 \<and>
                     (if has_frac then length frac = 3 \<or> length frac = 6 else True)
                  then Some (of_int (days_from_civil y mo d * 86400
                                       + int (h * 3600 + mi * 60 + sec) - off)
                             + of_nat (digits_val 0 frac) / 10 ^ length frac)
                  else None)
         | _ \<Rightarrow> None)"

text \<open>\<open>dt.astimezone(JST).strftime('%H:%M')\<close>: the wall clock nine hours east of UTC.\<close>

definition pad2 :: "nat \<Rightarrow> pystr" where
  "pad2 n = (if n < 10 then 48 # str_nat n else str_nat n)"

definition hhmm_jst :: "real \<Rightarrow> pystr" where
  "hhmm_jst t =
     (let m = nat (((\<lfloor>t\<rfloor> + 32400) mod 86400) div 60)
      in pad2 (m div 60) @ [58] @ pad2 (m mod 60))"

section \<open>The input records and the report\<close>

text \<open>
  The dictionaries of the feed, with the fields the pipeline reads. A text field that
  is absent, null or empty is the empty string: the source tests all three with the same
  truth test. \<open>sgv\<close> and \<open>delta\<close> are \<open>None\<close> when absent or null.
\<close>

record entry =
  dateString :: pystr
  sgv :: "int option"
  direction :: pystr
  delta :: "real option"

record treatment =
  created_at :: pystr
  notes_str :: pystr
  carbs :: pystr
  insulin :: pystr
  glucose :: pystr

text \<open>A cell of the table that holds a number, or a text (the placeholder).\<close>

datatype cell = Num pyfloat | Txt pystr

record row =
  row_time :: pystr
  row_bg :: pystr
  row_cir :: cell
  row_carbs :: pystr
  row_predicted :: cell
  row_actual :: pystr
  row_type :: pystr
  row_food :: pystr

record stats =
  avg_bg :: int
  total_insulin :: pyfloat
  basal_insulin :: pyfloat
  total_carbs :: pyfloat

record report = stats +
  tcir :: pystr
  chart_times :: "pystr list"
  chart_bgs :: "int list"
  table_data :: "row list"

datatype fault = ValueError

section \<open>TimeSeriesCorrelator\<close>

definition get_direction_arrow :: "pystr \<Rightarrow> pystr" where
  "get_direction_arrow d =
     (if d = ascii ''DoubleUp'' then [8648]
      else if d = ascii ''SingleUp'' then [8593]
      else if d = ascii ''FortyFiveUp'' then [8599]
      else if d = ascii ''Flat'' then [8594]
      else if d = ascii ''FortyFiveDown'' then [8600]
      else if d = ascii ''SingleDown'' then [8595]
      else if d = ascii ''DoubleDown'' then [8650]
      else if d = ascii ''NOT COMPUTABLE'' then [63]
      else if d = ascii ''RATE OUT OF RANGE'' then [63]
      else [])"

text \<open>\<open>datetime.fromisoformat(x['dateString'].replace('Z', '+00:00')).timestamp()\<close>.\<close>

definition instant :: "(pystr \<Rightarrow> real option) \<Rightarrow> pystr \<Rightarrow> real option" where
  "instant fromiso s = fromiso (py_replace (ascii ''Z'') (ascii ''+00:00'') s)"

text \<open>
  The keys that \<open>min(entries, key=...)\<close> computes, in the order of the list: the distance
  in seconds of each reading from the treatment. One unparseable reading raises, and
  there is no list of keys.
\<close>

fun keyed :: "(pystr \<Rightarrow> real option) \<Rightarrow> real \<Rightarrow> entry list \<Rightarrow> (real \<times> entry) list option" where
  "keyed fromiso t [] = Some []"
| "keyed fromiso t (e # es) =
     (case instant fromiso (dateString e) of
        None \<Rightarrow> None
      | Some u \<Rightarrow>
          (case keyed fromiso t es of
             None \<Rightarrow> None
           | Some r \<Rightarrow> Some ((\<bar>u - t\<bar>, e) # r)))"

text \<open>\<open>min\<close> keeps the first of the elements with the least key.\<close>

fun min_pair :: "real \<times> entry \<Rightarrow> (real \<times> entry) list \<Rightarrow> real \<times> entry" where
  "min_pair best [] = best"
| "min_pair best (p # ps) = min_pair (if fst p < fst best then p else best) ps"

text \<open>The display of the matched reading in \<open>app.py\<close>, lines 231 to 236.\<close>

definition delta_str :: "real option \<Rightarrow> pystr" where
  "delta_str dl =
     (case dl of
        None \<Rightarrow> []
      | Some d \<Rightarrow>
          if d = 0 then []
          else ascii '' ('' @ (if 0 < d then ascii ''+'' else []) @ str_int (py_round d) @ ascii '')'')"

definition cgm_display :: "entry \<Rightarrow> pystr" where
  "cgm_display e =
     (case sgv e of
        None \<Rightarrow> []
      | Some v \<Rightarrow>
          if v = 0 then []
          else str_int v @ delta_str (delta e) @ ascii '' '' @
               (if direction e = [] then [] else get_direction_arrow (direction e)))"

text \<open>
  The correlator of \<open>app.py\<close>, lines 226 to 236: the CGM part of the glucose display,
  empty when no value is attached, or the fault that \<open>min\<close> raises.
\<close>

definition correlate :: "(pystr \<Rightarrow> real option) \<Rightarrow> real \<Rightarrow> entry list \<Rightarrow> fault + pystr" where
  "correlate fromiso t entries =
     (if entries = [] then Inr []
      else
        (case keyed fromiso t entries of
           None \<Rightarrow> Inl ValueError
         | Some [] \<Rightarrow> Inr []
         | Some (p # ps) \<Rightarrow>
             (let closest = min_pair p ps
              in if fst closest < 900 then Inr (cgm_display (snd closest)) else Inr [])))"

text \<open>The display of the matched reading in \<open>nightscout_web_app.py\<close>, lines 185 to 191.\<close>

definition cgm_display_legacy :: "entry \<Rightarrow> pystr" where
  "cgm_display_legacy e =
     (case sgv e of
        None \<Rightarrow> []
      | Some v \<Rightarrow>
          if v = 0 then []
          else str_int v @
               (case delta e of
                  None \<Rightarrow> []
                | Some d \<Rightarrow>
                    ascii '' ('' @ (if 0 < py_round d then ascii ''+'' else []) @
                    str_int (py_round d) @ ascii '')'') @
               (if direction e = [] then [] else ascii '' '' @ get_direction_arrow (direction e)))"

text \<open>
  The correlator of \<open>nightscout_web_app.py\<close>, lines 177 to 193: the \<open>try\<close> around it turns
  the fault of \<open>min\<close> into an empty display, and there is no test of the distance.
\<close>

definition correlate_legacy :: "(pystr \<Rightarrow> real option) \<Rightarrow> real \<Rightarrow> entry list \<Rightarrow> pystr" where
  "correlate_legacy fromiso t entries =
     (if entries = [] then []
      else
        (case keyed fromiso t entries of
           None \<Rightarrow> []
         | Some [] \<Rightarrow> []
         | Some (p # ps) \<Rightarrow> cgm_display_legacy (snd (min_pair p ps))))"

text \<open>The measured value, appended to the CGM part or standing alone.\<close>

definition add_measured :: "pystr \<Rightarrow> pystr \<Rightarrow> pystr" where
  "add_measured g bg_display =
     (if g = [] then bg_display
      else if bg_display \<noteq> [] then bg_display @ ascii '' / '' @ measured_label @ g
      else measured_label @ g)"

section \<open>StatsAggregator\<close>

text \<open>
  The snack rule. \<open>app.py\<close> asks whether some item contains the marker; the older file
  asks whether the concatenation of the items does.
\<close>

definition has_hosyoku :: "pystr list \<Rightarrow> bool" where
  "has_hosyoku fs = list_ex (sublist snack_marker) fs"

definition has_hosyoku_legacy :: "pystr list \<Rightarrow> bool" where
  "has_hosyoku_legacy fs \<longleftrightarrow> tablet_marker \<in> set fs \<or> sublist snack_marker (py_join [] fs)"

definition auto_snack :: "(pystr list \<Rightarrow> bool) \<Rightarrow> pyfloat \<Rightarrow> parsed \<Rightarrow> parsed" where
  "auto_snack has v p =
     (if snack_range v \<and> \<not> has (foods p) then p\<lparr>foods := snack_marker # foods p\<rparr> else p)"

text \<open>Lines 203 to 212 of \<open>app.py\<close>: the carbs are added, then the snack rule runs.\<close>

definition carbs_step :: "(pystr \<Rightarrow> pyfloat option) \<Rightarrow> pystr \<Rightarrow> stats \<times> parsed \<Rightarrow> stats \<times> parsed" where
  "carbs_step pf carbs_str sp =
     (if carbs_str = [] then sp
      else
        (case pf carbs_str of
           None \<Rightarrow> sp
         | Some v \<Rightarrow>
             ((fst sp)\<lparr>total_carbs := fadd (total_carbs (fst sp)) v\<rparr>,
              auto_snack has_hosyoku v (snd sp))))"

text \<open>The \<open>elif insulin_str\<close> branch.\<close>

definition bolus_step :: "(pystr \<Rightarrow> pyfloat option) \<Rightarrow> pystr \<Rightarrow> stats \<Rightarrow> stats" where
  "bolus_step pf insulin_str st =
     (if insulin_str = [] then st
      else
        (case pf insulin_str of
           None \<Rightarrow> st
         | Some v \<Rightarrow> st\<lparr>total_insulin := fadd (total_insulin st) v\<rparr>))"

text \<open>
  Lines 215 to 220 of \<open>app.py\<close> (221 to 228 of the older file). The test
  \<open>is_basal and parsed["basal_amount"]\<close> is a truth test: an amount of zero fails it
  as an absent one does.
\<close>

definition insulin_step :: "(pystr \<Rightarrow> pyfloat option) \<Rightarrow> pystr \<Rightarrow> parsed \<Rightarrow> stats \<Rightarrow> stats" where
  "insulin_step pf insulin_str p st =
     (let is_basal = (basal_marker \<in> set (foods p))
      in case basal_amount p of
           None \<Rightarrow> bolus_step pf insulin_str st
         | Some b \<Rightarrow>
             if is_basal \<and> truthy b then st\<lparr>basal_insulin := fadd (basal_insulin st) b\<rparr>
             else bolus_step pf insulin_str st)"

section \<open>ReportAssembler\<close>

text \<open>\<open>x or "-"\<close> on a text, and on an optional number: zero is false in Python.\<close>

definition or_dash :: "pystr \<Rightarrow> pystr" where
  "or_dash s = (if s = [] then dash else s)"

definition num_cell :: "pyfloat option \<Rightarrow> cell" where
  "num_cell x = (case x of None \<Rightarrow> Txt dash | Some v \<Rightarrow> if truthy v then Num v else Txt dash)"

text \<open>The dictionary appended to the table (lines 242 to 251 of \<open>app.py\<close>).\<close>

definition build_row :: "real \<Rightarrow> parsed \<Rightarrow> treatment \<Rightarrow> pystr \<Rightarrow> row" where
  "build_row dt p t bg_display =
     \<lparr>row_time = hhmm_jst dt,
      row_bg = or_dash bg_display,
      row_cir = num_cell (cir p),
      row_carbs = (if carbs t = [] then dash else carbs t @ ascii ''g''),
      row_predicted = num_cell (predicted_insulin p),
      row_actual = or_dash (insulin t),
      row_type = (case insulin_type p of None \<Rightarrow> dash | Some ty \<Rightarrow> or_dash ty),
      row_food = (if foods p = [] then dash else py_join (ascii '', '') (foods p))\<rparr>"

text \<open>
  One turn of the loop over the treatments in \<open>app.py\<close> (lines 190 to 255), on the
  running totals and the rows built so far. The \<open>try\<close> covers the whole turn: an
  unparseable \<open>created_at\<close> leaves before anything is changed; a fault of the correlator
  leaves after the totals have been updated and before the row is appended.
\<close>

definition process_treatment ::
  "(pystr \<Rightarrow> real option) \<Rightarrow> (pystr \<Rightarrow> pyfloat option) \<Rightarrow> entry list \<Rightarrow> treatment \<Rightarrow>
     stats \<times> row list \<Rightarrow> stats \<times> row list" where
  "process_treatment fromiso pf entries t acc =
     (case instant fromiso (created_at t) of
        None \<Rightarrow> acc
      | Some dt \<Rightarrow>
          (let sp = carbs_step pf (carbs t) (fst acc, parse_notes pf (notes_str t));
               st = insulin_step pf (insulin t) (snd sp) (fst sp)
           in case correlate fromiso dt entries of
                Inl _ \<Rightarrow> (st, snd acc)
              | Inr cgm \<Rightarrow>
                  (st, snd acc @ [build_row dt (snd sp) t (add_measured (glucose t) cgm)])))"

fun treatments_loop ::
  "(pystr \<Rightarrow> real option) \<Rightarrow> (pystr \<Rightarrow> pyfloat option) \<Rightarrow> entry list \<Rightarrow> treatment list \<Rightarrow>
     stats \<times> row list \<Rightarrow> stats \<times> row list" where
  "treatments_loop fromiso pf entries [] acc = acc"
| "treatments_loop fromiso pf entries (t # ts) acc =
     treatments_loop fromiso pf entries ts (process_treatment fromiso pf entries t acc)"

text \<open>The chart: a reading with an unparseable time or without a value is passed over.\<close>

definition chart_point :: "(pystr \<Rightarrow> real option) \<Rightarrow> entry \<Rightarrow> (pystr \<times> int) option" where
  "chart_point fromiso e =
     (case instant fromiso (dateString e) of
        None \<Rightarrow> None
      | Some dt \<Rightarrow> (case sgv e of None \<Rightarrow> None | Some bg \<Rightarrow> Some (hhmm_jst dt, bg)))"

definition chart_data :: "(pystr \<Rightarrow> real option) \<Rightarrow> entry list \<Rightarrow> (pystr \<times> int) list" where
  "chart_data fromiso entries_sorted = List.map_filter (chart_point fromiso) entries_sorted"

text \<open>\<open>round(sum(bg_values) / len(bg_values)) if bg_values else 0\<close>.\<close>

definition bg_values :: "entry list \<Rightarrow> int list" where
  "bg_values entries = List.map_filter sgv entries"

definition average_bg :: "entry list \<Rightarrow> int" where
  "average_bg entries =
     (let vs = bg_values entries
      in if vs = [] then 0 else py_round (of_int (sum_list vs) / of_nat (length vs)))"

definition tcir_of :: "stats \<Rightarrow> pystr" where
  "tcir_of st =
     (if positive (total_insulin st) then fmt1 (fdiv (total_carbs st) (total_insulin st))
      else dash)"

definition initial_stats :: "entry list \<Rightarrow> stats" where
  "initial_stats entries =
     \<lparr>avg_bg = average_bg entries, total_insulin = Fin 0, basal_insulin = Fin 0,
      total_carbs = Fin 0\<rparr>"

text \<open>
  \<open>DataProcessor.process_report_data\<close> of \<open>app.py\<close>. \<open>sorted\<close> is stable and its key
  is the text of the timestamp, compared as Python compares strings (code point by code
  point); \<open>sort_key\<close> is the stable sort of the library. The correlator reads the
  unsorted \<open>entries\<close>.
\<close>

definition process_report_data ::
  "(pystr \<Rightarrow> real option) \<Rightarrow> (pystr \<Rightarrow> pyfloat option) \<Rightarrow> entry list \<Rightarrow> treatment list \<Rightarrow> report" where
  "process_report_data fromiso pf entries treatments =
     (let entries_sorted = sort_key dateString entries;
          chart = chart_data fromiso entries_sorted;
          treatments_sorted = sort_key created_at treatments;
          res = treatments_loop fromiso pf entries treatments_sorted (initial_stats entries, [])
      in \<lparr>avg_bg = avg_bg (fst res),
          total_insulin = py_round2 (total_insulin (fst res)),
          basal_insulin = py_round2 (basal_insulin (fst res)),
          total_carbs = total_carbs (fst res),
          tcir = tcir_of (fst res),
          chart_times = map fst chart,
          chart_bgs = map snd chart,
          table_data = snd res\<rparr>)"

subsection \<open>The older file\<close>

text \<open>
  One turn of the loop of \<open>prepare_report_data\<close> in \<open>nightscout_web_app.py\<close> (lines 167
  to 252). The parse of \<open>created_at\<close> stands outside every \<open>try\<close>: its \<open>ValueError\<close>
  leaves the function.
\<close>

definition legacy_snack :: "(pystr \<Rightarrow> pyfloat option) \<Rightarrow> pystr \<Rightarrow> parsed \<Rightarrow> parsed" where
  "legacy_snack pf carbs_str p =
     (if carbs_str = [] then p
      else (case pf carbs_str of None \<Rightarrow> p | Some v \<Rightarrow> auto_snack has_hosyoku_legacy v p))"

definition legacy_carbs :: "(pystr \<Rightarrow> pyfloat option) \<Rightarrow> pystr \<Rightarrow> stats \<Rightarrow> stats" where
  "legacy_carbs pf carbs_str st =
     (if carbs_str = [] then st
      else (case pf carbs_str of
              None \<Rightarrow> st
            | Some v \<Rightarrow> st\<lparr>total_carbs := fadd (total_carbs st) v\<rparr>))"

definition legacy_treatment ::
  "(pystr \<Rightarrow> real option) \<Rightarrow> (pystr \<Rightarrow> pyfloat option) \<Rightarrow> entry list \<Rightarrow> treatment \<Rightarrow>
     stats \<times> row list \<Rightarrow> fault + stats \<times> row list" where
  "legacy_treatment fromiso pf entries t acc =
     (case instant fromiso (created_at t) of
        None \<Rightarrow> Inl ValueError
      | Some dt \<Rightarrow>
          (let bg_display = add_measured (glucose t) (correlate_legacy fromiso dt entries);
               p = legacy_snack pf (carbs t) (parse_notes_legacy pf (notes_str t));
               st = legacy_carbs pf (carbs t) (insulin_step pf (insulin t) p (fst acc))
           in Inr (st, snd acc @ [build_row dt p t bg_display])))"

fun legacy_loop ::
  "(pystr \<Rightarrow> real option) \<Rightarrow> (pystr \<Rightarrow> pyfloat option) \<Rightarrow> entry list \<Rightarrow> treatment list \<Rightarrow>
     stats \<times> row list \<Rightarrow> fault + stats \<times> row list" where
  "legacy_loop fromiso pf entries [] acc = Inr acc"
| "legacy_loop fromiso pf entries (t # ts) acc =
     (case legacy_treatment fromiso pf entries t acc of
        Inl e \<Rightarrow> Inl e
      | Inr acc' \<Rightarrow> legacy_loop fromiso pf entries ts acc')"

definition prepare_report_data ::
  "(pystr \<Rightarrow> real option) \<Rightarrow> (pystr \<Rightarrow> pyfloat option) \<Rightarrow> entry list \<Rightarrow> treatment list \<Rightarrow>
     fault + report" where
  "prepare_report_data fromiso pf entries treatments =
     (let entries_sorted = sort_key dateString entries;
          chart = chart_data fromiso entries_sorted;
          treatments_sorted = sort_key created_at treatments
      in case legacy_loop fromiso pf entries treatments_sorted (initial_stats entries, []) of
           Inl e \<Rightarrow> Inl e
         | Inr res \<Rightarrow>
             Inr \<lparr>avg_bg = avg_bg (fst res),
                  total_insulin = total_insulin (fst res),
                  basal_insulin = basal_insulin (fst res),
                  total_carbs = total_carbs (fst res),
                  tcir = tcir_of (fst res),
                  chart_times = map fst chart,
                  chart_bgs = map snd chart,
                  table_data = snd res\<rparr>)"

section \<open>Properties\<close>

subsection \<open>Rounding to a double\<close>

lemma pow2_pos [simp]: "0 < pow2 e"
  by (simp add: pow2_def)

lemma pow2_nonneg' [simp]: "0 \<le> pow2 e"
  using pow2_pos [of e] by linarith

lemma abs_pow2 [simp]: "\<bar>pow2 e\<bar> = pow2 e"
  by simp

lemma pow2_neq0 [simp]: "pow2 e \<noteq> 0"
  using pow2_pos [of e] by linarith

lemma pow2_powr: "pow2 e = 2 powr (of_int e)"
proof (cases "0 \<le> e")
  case True
  then have "2 powr (of_int e) = (2::real) powr (real (nat e))" by simp
  also have "\<dots> = 2 ^ nat e" by (simp add: powr_realpow)
  finally show ?thesis using True by (simp add: pow2_def)
next
  case False
  then have "2 powr (of_int e) = (2::real) powr (- real (nat (- e)))" by simp
  also have "\<dots> = 1 / 2 ^ nat (- e)" by (simp add: powr_minus_divide powr_realpow)
  finally show ?thesis using False by (simp add: pow2_def)
qed

lemma pow2_add: "pow2 (i + j) = pow2 i * pow2 j"
  by (simp add: pow2_powr powr_add)

lemma pow2_nonneg: "0 \<le> e \<Longrightarrow> pow2 e = of_int (2 ^ nat e)"
  by (simp add: pow2_def)

lemma pow2_mono: "i \<le> j \<Longrightarrow> pow2 i \<le> pow2 j"
  by (simp add: pow2_powr)

lemma py_round_of_int [simp]: "py_round (of_int k) = k"
  by (simp add: py_round_def)

text \<open>The exponent of a positive real between two neighbouring powers of two.\<close>

lemma floor_log2: "pow2 n \<le> a \<Longrightarrow> a < pow2 (n + 1) \<Longrightarrow> \<lfloor>log 2 a\<rfloor> = n"
proof -
  assume lo: "pow2 n \<le> a" and hi: "a < pow2 (n + 1)"
  have pos: "0 < a" using lo pow2_pos [of n] by linarith
  have "of_int n \<le> log 2 a" using lo pos by (simp add: le_log_iff pow2_powr)
  moreover have "log 2 a < of_int n + 1"
    using hi pos by (simp add: log_less_iff pow2_powr add.commute)
  ultimately show ?thesis by (simp add: floor_eq_iff)
qed

lemma ulp_exp_normal:
  "pow2 n \<le> a \<Longrightarrow> a < pow2 (n + 1) \<Longrightarrow> - 1022 \<le> n \<Longrightarrow> ulp_exp a = n - 52"
  by (simp add: ulp_exp_def floor_log2)

text \<open>A real with at most 53 significant bits in the range of the doubles is a double.\<close>

lemma to_double_dyadic:
  assumes m: "m \<noteq> 0" "\<bar>m\<bar> < 2 ^ 53" and j: "- 1074 \<le> j" "j \<le> 971"
  shows "to_double (of_int m * pow2 j) = Fin (of_int m * pow2 j)"
proof -
  define x where "x = real_of_int m * pow2 j"
  define a where "a = \<bar>x\<bar>"
  have a: "a = of_int \<bar>m\<bar> * pow2 j" by (simp add: a_def x_def abs_mult)
  have m1: "1 \<le> real_of_int \<bar>m\<bar>" using m(1) by linarith
  have "real_of_int \<bar>m\<bar> < real_of_int (2 ^ 53)" using m(2) by (simp only: of_int_less_iff)
  then have m2: "real_of_int \<bar>m\<bar> < pow2 53" by (simp add: pow2_def)
  have apos: "0 < a" using m1 by (simp add: a)
  have "a < pow2 53 * pow2 j" using m2 by (simp add: a)
  then have abound: "a < pow2 (j + 53)" by (simp only: pow2_add mult.commute)
  then have "log 2 a < of_int (j + 53)" using apos by (simp add: log_less_iff pow2_powr)
  then have "\<lfloor>log 2 a\<rfloor> < j + 53" by (simp add: floor_less_iff)
  then have "ulp_exp a \<le> j" using j by (simp add: ulp_exp_def)
  define e where "e = ulp_exp a"
  define k where "k = j - e"
  have k: "0 \<le> k" using \<open>ulp_exp a \<le> j\<close> by (simp add: k_def e_def)
  have "pow2 j = pow2 (k + e)" by (simp add: k_def)
  then have pj: "pow2 j = pow2 k * pow2 e" by (simp only: pow2_add)
  have "a / pow2 e = of_int \<bar>m\<bar> * pow2 k * pow2 e / pow2 e"
    by (simp only: a pj mult.assoc)
  also have "\<dots> = of_int \<bar>m\<bar> * pow2 k" by simp
  also have "\<dots> = of_int (\<bar>m\<bar> * 2 ^ nat k)" using k by (simp add: pow2_nonneg)
  finally have q: "a / pow2 e = of_int (\<bar>m\<bar> * 2 ^ nat k)" .
  have "of_int (py_round (a / pow2 e)) * pow2 e = a / pow2 e * pow2 e"
    unfolding q py_round_of_int ..
  then have r: "of_int (py_round (a / pow2 (ulp_exp a))) * pow2 (ulp_exp a) = a"
    by (simp add: e_def)
  have "pow2 (j + 53) \<le> pow2 1024" using j(2) by (intro pow2_mono) simp
  with abound have small: "\<not> pow2 1024 \<le> a" by linarith
  have x0: "x \<noteq> 0" using apos by (simp add: a_def)
  have "to_double x = Fin (if x < 0 then - a else a)"
    unfolding to_double_def Let_def a_def [symmetric] r using small apos x0 by simp
  also have "(if x < 0 then - a else a) = x" by (simp add: a_def)
  finally show ?thesis by (simp only: x_def)
qed

lemma to_double_int: "\<bar>m\<bar> < 2 ^ 53 \<Longrightarrow> to_double (of_int m) = Fin (of_int m)"
proof (cases "m = 0")
  case True
  then show ?thesis by (simp add: to_double_def)
next
  case False
  assume "\<bar>m\<bar> < 2 ^ 53"
  with False to_double_dyadic [of m 0] show ?thesis by (simp add: pow2_def)
qed

text \<open>The rounded value is within half a unit of the last place.\<close>

lemma to_double_nearest:
  "to_double x = Fin r \<Longrightarrow> \<bar>r - x\<bar> \<le> pow2 (ulp_exp \<bar>x\<bar>) / 2"
proof -
  assume h: "to_double x = Fin r"
  show ?thesis
  proof (cases "x = 0")
    case True
    with h show ?thesis by (simp add: to_double_def)
  next
    case False
    define e where "e = ulp_exp \<bar>x\<bar>"
    define q where "q = \<bar>x\<bar> / pow2 e"
    have n: "\<bar>of_int (py_round q) - q\<bar> \<le> 1 / 2"
      unfolding py_round_def Let_def by (auto simp: abs_le_iff)
    have "(of_int (py_round q) - q) * pow2 e = of_int (py_round q) * pow2 e - \<bar>x\<bar>"
      by (simp add: q_def left_diff_distrib)
    then have "\<bar>of_int (py_round q) * pow2 e - \<bar>x\<bar>\<bar> = \<bar>of_int (py_round q) - q\<bar> * pow2 e"
      by (metis abs_mult abs_pow2)
    with n have b: "\<bar>of_int (py_round q) * pow2 e - \<bar>x\<bar>\<bar> \<le> pow2 e / 2"
      by (simp add: field_simps)
    from h False have "r = (if x < 0 then - (of_int (py_round q) * pow2 e) else of_int (py_round q) * pow2 e)"
      by (auto simp: to_double_def Let_def e_def q_def split: if_splits)
    moreover have "\<bar>- (of_int (py_round q) * pow2 e) - x\<bar> = \<bar>of_int (py_round q) * pow2 e + x\<bar>"
      by (metis abs_minus add.commute minus_diff_eq diff_minus_eq_add)
    ultimately show ?thesis using b unfolding e_def [symmetric] by (auto split: if_splits)
  qed
qed

text \<open>The doubles that the concrete inputs below use.\<close>

lemma to_double_0 [simp]: "to_double 0 = Fin 0"
  by (simp add: to_double_def)

lemma to_double_1: "to_double 1 = Fin 1"
  using to_double_int [of 1] by simp

lemma to_double_numeral: "numeral k < (2::int) ^ 53 \<Longrightarrow> to_double (numeral k) = Fin (numeral k)"
  using to_double_int [of "numeral k"] by simp

lemma to_double_4_5: "to_double (9 / 2) = Fin (9 / 2)"
  using to_double_dyadic [of 9 "- 1"] by (simp add: pow2_def)

text \<open>
  0.35 is not a double: the nearest one is \<open>6305039478318694 / 2 ^ 54\<close>, just below it.
\<close>

lemma to_double_7_20: "to_double (7 / 20) = Fin (6305039478318694 / 2 ^ 54)"
proof -
  have "ulp_exp (7 / 20) = - 2 - 52"
    by (rule ulp_exp_normal) (simp_all add: pow2_def)
  then have e: "ulp_exp (7 / 20) = - 54" by simp
  have small: "\<not> pow2 1024 \<le> 6305039478318694 / 18014398509481984"
  proof -
    have "pow2 0 \<le> pow2 1024" by (rule pow2_mono) simp
    then show ?thesis by (simp add: pow2_def [of 0])
  qed
  show ?thesis
    using small by (simp add: to_double_def e Let_def pow2_def [of "- 54"] py_round_def)
qed

lemmas double_ev = to_double_1 to_double_numeral to_double_4_5

subsection \<open>Running the model on concrete inputs\<close>

lemma str_nat_digit: "n < 10 \<Longrightarrow> str_nat n = [48 + n]"
  by (simp add: str_nat.simps)

lemma str_nat_step: "10 \<le> n \<Longrightarrow> str_nat n = str_nat (n div 10) @ [48 + n mod 10]"
  by (subst str_nat.simps) simp

lemmas str_ev = str_nat_digit str_nat_step str_int_def

lemmas float_ev = py_float_def unsigned_float_def is_digit_def py_strip_def is_space_def
  py_upper_def double_ev Let_def

lemmas parse_ev = parse_notes_def parse_notes_legacy_def nonempty_lines_def split_lines_def
  py_strip_def is_space_def marker_branch_def cir_branch_def second_token_def second_float_def
  is_type_letter_def py_upper_def py_split_def tore_latin_def tore_kana_def empty_result_def Let_def


lemma py_strip_Nil [simp]: "py_strip [] = []"
  by (simp add: py_strip_def)





subsection \<open>Basal records\<close>



subsection \<open>Rounding and formatting\<close>

lemma py_round_nearest: "\<bar>of_int (py_round x) - x\<bar> \<le> 1 / 2"
  unfolding py_round_def Let_def by (auto simp: abs_le_iff)

lemma py_round_tie_even: "x - of_int \<lfloor>x\<rfloor> = 1 / 2 \<Longrightarrow> even (py_round x)"
  unfolding py_round_def Let_def by auto

lemma py_round_nonneg: "0 \<le> x \<Longrightarrow> 0 \<le> py_round x"
  unfolding py_round_def Let_def by auto

lemma str_nat_digits: "str_nat n \<noteq> [] \<and> list_all is_digit (str_nat n)"
proof (induction n rule: str_nat.induct)
  case (1 n)
  show ?case
  proof (cases "n < 10")
    case True
    then show ?thesis by (simp add: str_nat_digit is_digit_def)
  next
    case False
    then have "10 \<le> n" by simp
    moreover have "n mod 10 < 10" by simp
    ultimately show ?thesis using 1 False
      by (simp add: str_nat_step is_digit_def)
  qed
qed

text \<open>The format \<open>.1f\<close> gives digits, a point and one digit, after the sign if any.\<close>

lemma fmt1_finite_shape:
  "\<exists>ds d. fmt1_finite x = (if x < 0 then [45] else []) @ ds @ [46, d] \<and> ds \<noteq> [] \<and>
     list_all is_digit ds \<and> is_digit d"
proof -
  define n where "n = nat (py_round (\<bar>x\<bar> * 10))"
  have "n mod 10 < 10" by simp
  then have "str_nat (n mod 10) = [48 + n mod 10]" by (rule str_nat_digit)
  moreover have "is_digit (48 + n mod 10)" by (simp add: is_digit_def)
  ultimately show ?thesis
    using str_nat_digits [of "n div 10"] by (auto simp: fmt1_finite_def Let_def n_def)
qed

lemma fmt1_not_dash: "fmt1 x \<noteq> dash"
proof (cases x)
  case (Fin a)
  from fmt1_finite_shape [of a] obtain ds d
    where "fmt1_finite a = (if a < 0 then [45] else []) @ ds @ [46, d]" and "ds \<noteq> []" by blast
  with Fin show ?thesis by (cases ds) (auto simp: dash_def)
qed (simp_all add: dash_def)

subsection \<open>What one treatment does to the totals\<close>

lemma bolus_step_fields:
  "avg_bg (bolus_step pf s st) = avg_bg st \<and> basal_insulin (bolus_step pf s st) = basal_insulin st \<and>
   total_carbs (bolus_step pf s st) = total_carbs st"
  by (simp add: bolus_step_def split: option.split)

lemma insulin_step_fields:
  "avg_bg (insulin_step pf s p st) = avg_bg st \<and> total_carbs (insulin_step pf s p st) = total_carbs st"
  by (simp add: insulin_step_def bolus_step_fields split: option.split)

lemma insulin_step_one_total:
  "total_insulin (insulin_step pf s p st) = total_insulin st \<or>
   basal_insulin (insulin_step pf s p st) = basal_insulin st"
  by (simp add: insulin_step_def bolus_step_fields split: option.split)

lemma carbs_step_fields:
  "avg_bg (fst (carbs_step pf c sp)) = avg_bg (fst sp) \<and>
   total_insulin (fst (carbs_step pf c sp)) = total_insulin (fst sp) \<and>
   basal_insulin (fst (carbs_step pf c sp)) = basal_insulin (fst sp)"
  by (simp add: carbs_step_def split: option.split)

lemma legacy_carbs_fields:
  "avg_bg (legacy_carbs pf c st) = avg_bg st \<and> total_insulin (legacy_carbs pf c st) = total_insulin st \<and>
   basal_insulin (legacy_carbs pf c st) = basal_insulin st"
  by (simp add: legacy_carbs_def split: option.split)

lemma process_treatment_avg_bg:
  "avg_bg (fst (process_treatment fromiso pf entries t acc)) = avg_bg (fst acc)"
  by (simp add: process_treatment_def Let_def insulin_step_fields carbs_step_fields
      split: option.split sum.split)

lemma treatments_loop_avg_bg:
  "avg_bg (fst (treatments_loop fromiso pf entries ts acc)) = avg_bg (fst acc)"
  by (induction ts arbitrary: acc) (simp_all add: process_treatment_avg_bg)

lemma legacy_treatment_avg_bg:
  "legacy_treatment fromiso pf entries t acc = Inr acc' \<Longrightarrow> avg_bg (fst acc') = avg_bg (fst acc)"
  by (auto simp: legacy_treatment_def Let_def insulin_step_fields legacy_carbs_fields
      split: option.splits)

lemma legacy_loop_avg_bg:
  "legacy_loop fromiso pf entries ts acc = Inr acc' \<Longrightarrow> avg_bg (fst acc') = avg_bg (fst acc)"
proof (induction ts arbitrary: acc)
  case Nil
  then show ?case by simp
next
  case (Cons t ts)
  then show ?case
    by (auto split: sum.splits dest: legacy_treatment_avg_bg)
qed

lemma process_treatment_one_total:
  "total_insulin (fst (process_treatment fromiso pf entries t acc)) = total_insulin (fst acc) \<or>
   basal_insulin (fst (process_treatment fromiso pf entries t acc)) = basal_insulin (fst acc)"
proof (cases "instant fromiso (created_at t)")
  case None
  then show ?thesis by (simp add: process_treatment_def)
next
  case (Some dt)
  define sp where "sp = carbs_step pf (carbs t) (fst acc, parse_notes pf (notes_str t))"
  have "fst (process_treatment fromiso pf entries t acc) = insulin_step pf (insulin t) (snd sp) (fst sp)"
    by (simp add: process_treatment_def Some Let_def sp_def split: sum.split)
  moreover have "total_insulin (fst sp) = total_insulin (fst acc)"
    "basal_insulin (fst sp) = basal_insulin (fst acc)"
    using carbs_step_fields [of pf "carbs t" "(fst acc, parse_notes pf (notes_str t))"]
    by (simp_all add: sp_def)
  ultimately show ?thesis
    using insulin_step_one_total [of pf "insulin t" "snd sp" "fst sp"] by simp
qed

lemma legacy_treatment_one_total:
  assumes "legacy_treatment fromiso pf entries t acc = Inr acc'"
  shows "total_insulin (fst acc') = total_insulin (fst acc) \<or>
         basal_insulin (fst acc') = basal_insulin (fst acc)"
proof -
  from assms obtain dt where dt: "instant fromiso (created_at t) = Some dt"
    by (auto simp: legacy_treatment_def split: option.splits)
  define p where "p = legacy_snack pf (carbs t) (parse_notes_legacy pf (notes_str t))"
  from assms dt have "fst acc' = legacy_carbs pf (carbs t) (insulin_step pf (insulin t) p (fst acc))"
    by (auto simp: legacy_treatment_def Let_def p_def)
  then show ?thesis
    using insulin_step_one_total [of pf "insulin t" p "fst acc"]
    by (simp add: legacy_carbs_fields)
qed

lemmas iso_ev = iso_timestamp_def utc_offset_def fixed_digits_def is_digit_def days_from_civil_def
  days_in_month_def is_leap_def instant_def Let_def

lemmas row_ev = build_row_def or_dash_def num_cell_def add_measured_def hhmm_jst_def pad2_def
  dash_def measured_label_def

lemmas stats_ev = carbs_step_def insulin_step_def bolus_step_def auto_snack_def has_hosyoku_def
  has_hosyoku_legacy_def legacy_snack_def legacy_carbs_def snack_marker_def basal_marker_def
  tablet_marker_def

lemmas correlate_ev = correlate_def correlate_legacy_def cgm_display_def cgm_display_legacy_def
  delta_str_def get_direction_arrow_def py_round_def Let_def

lemmas report_ev = process_report_data_def prepare_report_data_def chart_data_def chart_point_def
  bg_values_def average_bg_def initial_stats_def tcir_of_def List.map_filter_def Let_def

subsection \<open>The average glucose\<close>

text \<open>
  C8. In both files \<open>avg_bg\<close> is 0 when no reading has a value, and otherwise the mean
  of the values that are present, rounded to the nearest integer (a tie goes to the even
  one, as Python's \<open>round\<close> does); the treatments do not change it.
\<close>

theorem avg_bg_rounded_mean:
  "avg_bg (process_report_data fromiso pf entries treatments) = average_bg entries \<and>
   (prepare_report_data fromiso pf entries treatments = Inr r \<longrightarrow> avg_bg r = average_bg entries) \<and>
   (bg_values entries = [] \<longrightarrow> average_bg entries = 0) \<and>
   (bg_values entries \<noteq> [] \<longrightarrow>
      average_bg entries =
        py_round (real_of_int (sum_list (bg_values entries)) / real (length (bg_values entries))) \<and>
      \<bar>real_of_int (average_bg entries) -
        real_of_int (sum_list (bg_values entries)) / real (length (bg_values entries))\<bar> \<le> 1 / 2)"
proof -
  have a: "avg_bg (process_report_data fromiso pf entries treatments) = average_bg entries"
    by (simp add: process_report_data_def Let_def treatments_loop_avg_bg initial_stats_def)
  have b: "prepare_report_data fromiso pf entries treatments = Inr r \<longrightarrow> avg_bg r = average_bg entries"
  proof
    assume h: "prepare_report_data fromiso pf entries treatments = Inr r"
    then obtain res where
      l: "legacy_loop fromiso pf entries (sort_key created_at treatments) (initial_stats entries, []) = Inr res"
      and r: "avg_bg r = avg_bg (fst res)"
      by (auto simp: prepare_report_data_def Let_def split: sum.splits)
    from legacy_loop_avg_bg [OF l] r show "avg_bg r = average_bg entries"
      by (simp add: initial_stats_def)
  qed
  have c: "bg_values entries = [] \<longrightarrow> average_bg entries = 0"
    by (simp add: average_bg_def)
  have d: "bg_values entries \<noteq> [] \<longrightarrow>
      average_bg entries =
        py_round (real_of_int (sum_list (bg_values entries)) / real (length (bg_values entries))) \<and>
      \<bar>real_of_int (average_bg entries) -
        real_of_int (sum_list (bg_values entries)) / real (length (bg_values entries))\<bar> \<le> 1 / 2"
    using py_round_nearest
            [of "real_of_int (sum_list (bg_values entries)) / real (length (bg_values entries))"]
    by (simp add: average_bg_def Let_def)
  from a b c d show ?thesis by blast
qed

theorem avg_bg_rounded_mean_witness:
  "avg_bg (process_report_data iso_timestamp py_float
      [\<lparr>dateString = ascii ''2024-01-01T03:00:00Z'', sgv = Some 120, direction = [], delta = None\<rparr>,
       \<lparr>dateString = ascii ''2024-01-01T03:05:00Z'', sgv = None, direction = [], delta = None\<rparr>,
       \<lparr>dateString = ascii ''2024-01-01T03:10:00Z'', sgv = Some 125, direction = [], delta = None\<rparr>]
      []) = 122 \<and>
   avg_bg (process_report_data iso_timestamp py_float [] []) = 0"
proof -
  let ?es = "[\<lparr>dateString = ascii ''2024-01-01T03:00:00Z'', sgv = Some 120, direction = [], delta = None\<rparr>,
       \<lparr>dateString = ascii ''2024-01-01T03:05:00Z'', sgv = None, direction = [], delta = None\<rparr>,
       \<lparr>dateString = ascii ''2024-01-01T03:10:00Z'', sgv = Some 125, direction = [], delta = None\<rparr>]"
  have v: "bg_values ?es = [120, 125]" by (simp add: bg_values_def List.map_filter_def)
  have r: "py_round (245 / 2) = 122" by (simp add: py_round_def Let_def)
  have e: "bg_values ([] :: entry list) = []" by (simp add: bg_values_def List.map_filter_def)
  note full = avg_bg_rounded_mean [of iso_timestamp py_float ?es "[]"]
  note none = avg_bg_rounded_mean [of iso_timestamp py_float "[]" "[]"]
  from full [THEN conjunct1] full [THEN conjunct2, THEN conjunct2, THEN conjunct2] v r
  have "avg_bg (process_report_data iso_timestamp py_float ?es []) = 122" by simp
  moreover from none [THEN conjunct1] none [THEN conjunct2, THEN conjunct2, THEN conjunct1] e
  have "avg_bg (process_report_data iso_timestamp py_float [] []) = 0" by simp
  ultimately show ?thesis by simp
qed

subsection \<open>Zero and absent numbers in a row\<close>

lemma instant_0300 [simplified]:
  "instant iso_timestamp (ascii ''2024-01-01T03:00:00Z'') = Some 1704078000"
  by (simp add: iso_ev)

lemma hhmm_1200 [simplified]: "hhmm_jst 1704078000 = ascii ''12:00''"
  by (simp add: hhmm_jst_def pad2_def str_ev)

lemma num_cell_dash:
  "num_cell x = Txt dash \<longleftrightarrow> x = None \<or> x = Some (Fin 0) \<or> x = Some NegZero"
proof (cases x)
  case None
  then show ?thesis by (simp add: num_cell_def)
next
  case (Some v)
  then show ?thesis by (cases v) (auto simp: num_cell_def)
qed

text \<open>The snack rule changes the foods only.\<close>

lemma carbs_step_numbers:
  "cir (snd (carbs_step pf c sp)) = cir (snd sp) \<and>
   predicted_insulin (snd (carbs_step pf c sp)) = predicted_insulin (snd sp)"
  by (simp add: carbs_step_def auto_snack_def split: option.split)

lemma legacy_snack_numbers:
  "cir (legacy_snack pf c p) = cir p \<and> predicted_insulin (legacy_snack pf c p) = predicted_insulin p"
  by (simp add: legacy_snack_def auto_snack_def split: option.split)

text \<open>Every row that a turn of the loop adds is the row of its treatment.\<close>

lemma process_treatment_rows:
  assumes "r \<in> set (snd (process_treatment fromiso pf es t acc))"
  shows "r \<in> set (snd acc) \<or>
         row_cir r = num_cell (cir (parse_notes pf (notes_str t))) \<and>
         row_predicted r = num_cell (predicted_insulin (parse_notes pf (notes_str t)))"
proof (cases "instant fromiso (created_at t)")
  case None
  with assms show ?thesis by (simp add: process_treatment_def)
next
  case (Some dt)
  define sp where "sp = carbs_step pf (carbs t) (fst acc, parse_notes pf (notes_str t))"
  note n = carbs_step_numbers [of pf "carbs t" "(fst acc, parse_notes pf (notes_str t))"]
  show ?thesis
  proof (cases "correlate fromiso dt es")
    case (Inl e)
    with assms Some show ?thesis by (simp add: process_treatment_def Let_def)
  next
    case (Inr cgm)
    with assms Some have "r \<in> set (snd acc) \<or>
        r = build_row dt (snd sp) t (add_measured (glucose t) cgm)"
      by (auto simp: process_treatment_def Let_def sp_def)
    with n show ?thesis by (auto simp: build_row_def sp_def)
  qed
qed

lemma treatments_loop_rows:
  "r \<in> set (snd (treatments_loop fromiso pf es ts acc)) \<Longrightarrow>
     r \<in> set (snd acc) \<or>
     (\<exists>t \<in> set ts. row_cir r = num_cell (cir (parse_notes pf (notes_str t))) \<and>
        row_predicted r = num_cell (predicted_insulin (parse_notes pf (notes_str t))))"
proof (induction ts arbitrary: acc)
  case Nil
  then show ?case by simp
next
  case (Cons t ts)
  from Cons.prems have "r \<in> set (snd (treatments_loop fromiso pf es ts
      (process_treatment fromiso pf es t acc)))" by simp
  from Cons.IH [OF this] process_treatment_rows [of r fromiso pf es t acc]
  show ?case by auto
qed

lemma legacy_treatment_rows:
  assumes "legacy_treatment fromiso pf es t acc = Inr acc'" and "r \<in> set (snd acc')"
  shows "r \<in> set (snd acc) \<or>
         row_cir r = num_cell (cir (parse_notes_legacy pf (notes_str t))) \<and>
         row_predicted r = num_cell (predicted_insulin (parse_notes_legacy pf (notes_str t)))"
proof -
  from assms(1) obtain dt where dt: "instant fromiso (created_at t) = Some dt"
    by (auto simp: legacy_treatment_def split: option.splits)
  note n = legacy_snack_numbers [of pf "carbs t" "parse_notes_legacy pf (notes_str t)"]
  from assms dt have "r \<in> set (snd acc) \<or>
      r = build_row dt (legacy_snack pf (carbs t) (parse_notes_legacy pf (notes_str t))) t
            (add_measured (glucose t) (correlate_legacy fromiso dt es))"
    by (auto simp: legacy_treatment_def Let_def)
  with n show ?thesis by (auto simp: build_row_def)
qed

lemma legacy_loop_rows:
  "legacy_loop fromiso pf es ts acc = Inr acc' \<Longrightarrow> r \<in> set (snd acc') \<Longrightarrow>
     r \<in> set (snd acc) \<or>
     (\<exists>t \<in> set ts. row_cir r = num_cell (cir (parse_notes_legacy pf (notes_str t))) \<and>
        row_predicted r = num_cell (predicted_insulin (parse_notes_legacy pf (notes_str t))))"
proof (induction ts arbitrary: acc)
  case Nil
  then show ?case by simp
next
  case (Cons t ts)
  from Cons.prems(1) obtain mid where
    m: "legacy_treatment fromiso pf es t acc = Inr mid" "legacy_loop fromiso pf es ts mid = Inr acc'"
    by (auto split: sum.splits)
  from Cons.IH [OF m(2) Cons.prems(2)] legacy_treatment_rows [OF m(1), of r]
  show ?case by auto
qed

text \<open>
  C10. Every row of the emitted table, in both files, is the row of one of the
  treatments of the input, and its cells for the ratio and the predicted insulin are
  those of that treatment's parsed note: the placeholder \<open>-\<close> exactly when the parsed
  value is absent or is a zero (0.0 or -0.0), the number otherwise. A parsed zero and a
  missing value give the same cell.
\<close>

theorem zero_field_renders_as_placeholder:
  "(r \<in> set (table_data (process_report_data fromiso pf es ts)) \<longrightarrow>
      (\<exists>t \<in> set ts.
         row_cir r = num_cell (cir (parse_notes pf (notes_str t))) \<and>
         row_predicted r = num_cell (predicted_insulin (parse_notes pf (notes_str t))))) \<and>
   (prepare_report_data fromiso pf es ts = Inr rep \<and> r \<in> set (table_data rep) \<longrightarrow>
      (\<exists>t \<in> set ts.
         row_cir r = num_cell (cir (parse_notes_legacy pf (notes_str t))) \<and>
         row_predicted r = num_cell (predicted_insulin (parse_notes_legacy pf (notes_str t))))) \<and>
   (num_cell x = Txt dash \<longleftrightarrow> x = None \<or> x = Some (Fin 0) \<or> x = Some NegZero) \<and>
   num_cell (Some (Fin 0)) = num_cell None \<and> num_cell (Some NegZero) = num_cell None"
proof -
  have a: "r \<in> set (table_data (process_report_data fromiso pf es ts)) \<longrightarrow>
      (\<exists>t \<in> set ts.
         row_cir r = num_cell (cir (parse_notes pf (notes_str t))) \<and>
         row_predicted r = num_cell (predicted_insulin (parse_notes pf (notes_str t))))"
  proof
    assume "r \<in> set (table_data (process_report_data fromiso pf es ts))"
    then have "r \<in> set (snd (treatments_loop fromiso pf es (sort_key created_at ts)
        (initial_stats es, [])))"
      by (simp add: process_report_data_def Let_def)
    from treatments_loop_rows [OF this]
    show "\<exists>t \<in> set ts.
         row_cir r = num_cell (cir (parse_notes pf (notes_str t))) \<and>
         row_predicted r = num_cell (predicted_insulin (parse_notes pf (notes_str t)))"
      by simp
  qed
  have b: "prepare_report_data fromiso pf es ts = Inr rep \<and> r \<in> set (table_data rep) \<longrightarrow>
      (\<exists>t \<in> set ts.
         row_cir r = num_cell (cir (parse_notes_legacy pf (notes_str t))) \<and>
         row_predicted r = num_cell (predicted_insulin (parse_notes_legacy pf (notes_str t))))"
  proof
    assume h: "prepare_report_data fromiso pf es ts = Inr rep \<and> r \<in> set (table_data rep)"
    then obtain res where
      l: "legacy_loop fromiso pf es (sort_key created_at ts) (initial_stats es, []) = Inr res"
      and r: "r \<in> set (snd res)"
      by (auto simp: prepare_report_data_def Let_def split: sum.splits)
    from legacy_loop_rows [OF l r]
    show "\<exists>t \<in> set ts.
         row_cir r = num_cell (cir (parse_notes_legacy pf (notes_str t))) \<and>
         row_predicted r = num_cell (predicted_insulin (parse_notes_legacy pf (notes_str t)))"
      by simp
  qed
  have c: "num_cell (Some (Fin 0)) = num_cell None \<and> num_cell (Some NegZero) = num_cell None"
    by (simp add: num_cell_def)
  from a b c num_cell_dash [of x] show ?thesis by blast
qed

lemma parse_zero_ratio [simplified]:
  "parse_notes py_float (ascii ''0 0N'') =
     \<lparr>cir = Some (Fin 0), predicted_insulin = Some (Fin 0), insulin_type = Some (ascii ''N''),
      foods = [], basal_amount = None\<rparr>"
  by (simp add: parse_ev float_ev)

theorem zero_field_renders_as_placeholder_witness:
  "table_data (process_report_data iso_timestamp py_float []
     [\<lparr>created_at = ascii ''2024-01-01T03:00:00Z'', notes_str = ascii ''0 0N'', carbs = [],
       insulin = [], glucose = []\<rparr>]) \<noteq> [] \<and>
   row_cir (hd (table_data (process_report_data iso_timestamp py_float []
     [\<lparr>created_at = ascii ''2024-01-01T03:00:00Z'', notes_str = ascii ''0 0N'', carbs = [],
       insulin = [], glucose = []\<rparr>]))) = Txt dash \<and>
   row_predicted (hd (table_data (process_report_data iso_timestamp py_float []
     [\<lparr>created_at = ascii ''2024-01-01T03:00:00Z'', notes_str = ascii ''0 0N'', carbs = [],
       insulin = [], glucose = []\<rparr>]))) = Txt dash"
proof -
  let ?ts = "[\<lparr>created_at = ascii ''2024-01-01T03:00:00Z'', notes_str = ascii ''0 0N'', carbs = [],
       insulin = [], glucose = []\<rparr>]"
  let ?td = "table_data (process_report_data iso_timestamp py_float [] ?ts)"
  have len: "length ?td = 1"
    by (simp add: instant_0300 process_report_data_def process_treatment_def correlate_def
        Let_def)
  then have ne: "?td \<noteq> []" by auto
  then have mem: "hd ?td \<in> set ?td" by simp
  from zero_field_renders_as_placeholder
         [where r = "hd ?td" and fromiso = iso_timestamp and pf = py_float and es = "[]"
            and ts = ?ts, THEN conjunct1, THEN mp, OF mem]
  have "row_cir (hd ?td) = Txt dash \<and> row_predicted (hd ?td) = Txt dash"
    by (simp add: parse_zero_ratio num_cell_def)
  with ne show ?thesis by simp
qed

subsection \<open>Basal and bolus insulin\<close>

lemma float_3 [simplified]: "py_float (ascii ''3'') = Some (Fin 3)"
  by (simp add: float_ev)

lemma parse_tore_zero [simplified]:
  "parse_notes py_float (ascii ''Tore 0'') =
     \<lparr>cir = None, predicted_insulin = None, insulin_type = None, foods = [basal_marker],
      basal_amount = Some (Fin 0)\<rparr>"
  by (simp add: parse_ev float_ev)

lemma parse_tore_two [simplified]:
  "parse_notes py_float (ascii ''Tore 2.0'') =
     \<lparr>cir = None, predicted_insulin = None, insulin_type = None, foods = [basal_marker],
      basal_amount = Some (Fin 2)\<rparr>"
  by (simp add: parse_ev float_ev)

lemma py_round_numeral [simp]: "py_round (numeral k) = numeral k"
  using py_round_of_int [of "numeral k"] by simp

lemma py_round2_3 [simp]: "py_round2 (Fin 3) = Fin 3"
  by (simp add: Let_def double_ev)

lemma truthy_iff: "truthy b \<longleftrightarrow> b \<noteq> Fin 0 \<and> b \<noteq> NegZero"
  by (cases b) auto

text \<open>
  C3, as stated, fails: the note \<open>Tore 0\<close> gives a parsed note with the basal marker and
  a basal amount that is present (zero), yet the treatment's insulin \<open>3\<close> is added to
  \<open>total_insulin\<close>: the source tests the amount for truth, and zero is false.
\<close>

theorem basal_zero_counterexample:
  "basal_marker \<in> set (foods (parse_notes py_float (ascii ''Tore 0''))) \<and>
   basal_amount (parse_notes py_float (ascii ''Tore 0'')) = Some (Fin 0) \<and>
   total_insulin (process_report_data iso_timestamp py_float []
     [\<lparr>created_at = ascii ''2024-01-01T03:00:00Z'', notes_str = ascii ''Tore 0'', carbs = [],
       insulin = ascii ''3'', glucose = []\<rparr>]) = Fin 3"
  by (simp add: parse_tore_zero instant_0300 float_3 process_report_data_def process_treatment_def
      carbs_step_def insulin_step_def bolus_step_def correlate_def initial_stats_def Let_def
      double_ev)

text \<open>
  C3, amended. For every treatment: if the foods contain the basal marker and the basal
  amount is present and not a zero, the amount is added to \<open>basal_insulin\<close>; otherwise
  (also when the amount is present and zero), if the insulin text is not empty and
  parses, its value is added to \<open>total_insulin\<close>; otherwise nothing is added. One
  treatment never changes both totals, in either file.
\<close>

theorem insulin_totals_exclusive:
  "(basal_marker \<in> set (foods p) \<and> basal_amount p = Some b \<and> b \<noteq> Fin 0 \<and> b \<noteq> NegZero \<longrightarrow>
      insulin_step pf s p st = st\<lparr>basal_insulin := fadd (basal_insulin st) b\<rparr>) \<and>
   (basal_marker \<notin> set (foods p) \<or> basal_amount p = None \<or> basal_amount p = Some (Fin 0) \<or>
    basal_amount p = Some NegZero \<longrightarrow>
      insulin_step pf s p st =
        (if s = [] then st
         else case pf s of
                None \<Rightarrow> st
              | Some v \<Rightarrow> st\<lparr>total_insulin := fadd (total_insulin st) v\<rparr>)) \<and>
   (total_insulin (insulin_step pf s p st) = total_insulin st \<or>
    basal_insulin (insulin_step pf s p st) = basal_insulin st) \<and>
   (total_insulin (fst (process_treatment fromiso pf entries t acc)) = total_insulin (fst acc) \<or>
    basal_insulin (fst (process_treatment fromiso pf entries t acc)) = basal_insulin (fst acc)) \<and>
   (legacy_treatment fromiso pf entries t acc = Inr acc' \<longrightarrow>
      total_insulin (fst acc') = total_insulin (fst acc) \<or>
      basal_insulin (fst acc') = basal_insulin (fst acc))"
proof -
  have a: "basal_marker \<in> set (foods p) \<and> basal_amount p = Some b \<and> b \<noteq> Fin 0 \<and> b \<noteq> NegZero \<longrightarrow>
      insulin_step pf s p st = st\<lparr>basal_insulin := fadd (basal_insulin st) b\<rparr>"
    by (simp add: insulin_step_def truthy_iff)
  have b: "basal_marker \<notin> set (foods p) \<or> basal_amount p = None \<or> basal_amount p = Some (Fin 0) \<or>
    basal_amount p = Some NegZero \<longrightarrow>
      insulin_step pf s p st =
        (if s = [] then st
         else case pf s of
                None \<Rightarrow> st
              | Some v \<Rightarrow> st\<lparr>total_insulin := fadd (total_insulin st) v\<rparr>)"
    by (auto simp: insulin_step_def bolus_step_def split: option.splits)
  from a b insulin_step_one_total [of pf s p st]
    process_treatment_one_total [of fromiso pf entries t acc]
    legacy_treatment_one_total [of fromiso pf entries t acc acc']
  show ?thesis by blast
qed

theorem insulin_totals_exclusive_witness:
  "insulin_step py_float (ascii ''3'') (parse_notes py_float (ascii ''Tore 2.0''))
      \<lparr>avg_bg = 0, total_insulin = Fin 0, basal_insulin = Fin 0, total_carbs = Fin 0\<rparr> =
     \<lparr>avg_bg = 0, total_insulin = Fin 0, basal_insulin = Fin 2, total_carbs = Fin 0\<rparr> \<and>
   insulin_step py_float (ascii ''3'') (parse_notes py_float (ascii ''Tore 0''))
      \<lparr>avg_bg = 0, total_insulin = Fin 0, basal_insulin = Fin 0, total_carbs = Fin 0\<rparr> =
     \<lparr>avg_bg = 0, total_insulin = Fin 3, basal_insulin = Fin 0, total_carbs = Fin 0\<rparr>"
proof -
  let ?st = "\<lparr>avg_bg = 0, total_insulin = Fin 0, basal_insulin = Fin 0, total_carbs = Fin 0\<rparr>"
  have h1: "basal_marker \<in> set (foods (parse_notes py_float (ascii ''Tore 2.0''))) \<and>
            basal_amount (parse_notes py_float (ascii ''Tore 2.0'')) = Some (Fin 2) \<and>
            Fin 2 \<noteq> Fin 0 \<and> Fin 2 \<noteq> NegZero"
    by (simp add: parse_tore_two)
  have h2: "basal_marker \<notin> set (foods (parse_notes py_float (ascii ''Tore 0''))) \<or>
            basal_amount (parse_notes py_float (ascii ''Tore 0'')) = None \<or>
            basal_amount (parse_notes py_float (ascii ''Tore 0'')) = Some (Fin 0) \<or>
            basal_amount (parse_notes py_float (ascii ''Tore 0'')) = Some NegZero"
    by (simp add: parse_tore_zero)
  note t1 = insulin_totals_exclusive
    [where p = "parse_notes py_float (ascii ''Tore 2.0'')" and b = "Fin 2" and pf = py_float
       and s = "ascii ''3''" and st = ?st, THEN conjunct1, THEN mp, OF h1]
  note t2 = insulin_totals_exclusive
    [where p = "parse_notes py_float (ascii ''Tore 0'')" and pf = py_float
       and s = "ascii ''3''" and st = ?st, THEN conjunct2, THEN conjunct1, THEN mp, OF h2]
  from t1 t2 show ?thesis by (simp add: float_3 double_ev)
qed

subsection \<open>The ratio of total carbs to total insulin\<close>

lemma digits_val_snoc: "digits_val acc (xs @ [c]) = 10 * digits_val acc xs + (c - 48)"
  by (induction xs arbitrary: acc) simp_all

text \<open>The decimal text of a number reads back as the number.\<close>

lemma str_nat_value: "digits_val 0 (str_nat n) = n"
proof (induction n rule: str_nat.induct)
  case (1 n)
  show ?case
  proof (cases "n < 10")
    case True
    then show ?thesis by (simp add: str_nat_digit)
  next
    case False
    with 1 show ?thesis by (simp add: str_nat_step digits_val_snoc)
  qed
qed

lemma float_45 [simplified]: "py_float (ascii ''45'') = Some (Fin 45)"
  by (simp add: float_ev)

lemma fmt1_15 [simplified]: "fmt1 (Fin 15) = ascii ''15.0''"
  by (simp add: fmt1_finite_def py_round_def Let_def str_ev)

lemma fmt1_7_20 [simplified]: "fmt1 (Fin (6305039478318694 / 2 ^ 54)) = ascii ''0.3''"
  by (simp add: fmt1_finite_def py_round_def Let_def str_ev)

lemma positive_iff: "positive y \<longleftrightarrow> y = PosInf \<or> (\<exists>b. y = Fin b \<and> 0 < b)"
  by (cases y) auto

text \<open>The text of a finite float: its digits read as the value rounded to a tenth.\<close>

lemma fmt1_finite_value:
  "\<exists>ds d. fmt1_finite v = (if v < 0 then [45] else []) @ ds @ [46, d] \<and> ds \<noteq> [] \<and>
      list_all is_digit ds \<and> is_digit d \<and>
      \<bar>real (10 * digits_val 0 ds + (d - 48)) - \<bar>v\<bar> * 10\<bar> \<le> 1 / 2"
proof -
  define n where "n = nat (py_round (\<bar>v\<bar> * 10))"
  have nn: "0 \<le> py_round (\<bar>v\<bar> * 10)" by (rule py_round_nonneg) simp
  have dg: "str_nat (n mod 10) = [48 + n mod 10]" by (rule str_nat_digit) simp
  have f: "fmt1_finite v = (if v < 0 then [45] else []) @ str_nat (n div 10) @ [46, 48 + n mod 10]"
    by (simp add: fmt1_finite_def Let_def n_def [symmetric] dg)
  have val: "10 * digits_val 0 (str_nat (n div 10)) + (48 + n mod 10 - 48) = n"
    by (simp add: str_nat_value)
  have "\<bar>real n - \<bar>v\<bar> * 10\<bar> \<le> 1 / 2"
    using py_round_nearest [of "\<bar>v\<bar> * 10"] nn by (simp add: n_def)
  with f val str_nat_digits [of "n div 10"] show ?thesis
    by (intro exI [of _ "str_nat (n div 10)"] exI [of _ "48 + n mod 10"])
       (simp add: is_digit_def)
qed

text \<open>
  C4, as stated, fails on its own example: a day with 45 g of carbs and 3 units of bolus
  insulin has the ratio 45 / 3 = 15, shown as \<open>15.0\<close>, not \<open>7.5\<close>.
\<close>

theorem tcir_example_counterexample:
  "total_carbs (process_report_data iso_timestamp py_float []
     [\<lparr>created_at = ascii ''2024-01-01T03:00:00Z'', notes_str = [], carbs = ascii ''45'',
       insulin = ascii ''3'', glucose = []\<rparr>]) = Fin 45 \<and>
   total_insulin (process_report_data iso_timestamp py_float []
     [\<lparr>created_at = ascii ''2024-01-01T03:00:00Z'', notes_str = [], carbs = ascii ''45'',
       insulin = ascii ''3'', glucose = []\<rparr>]) = Fin 3 \<and>
   tcir (process_report_data iso_timestamp py_float []
     [\<lparr>created_at = ascii ''2024-01-01T03:00:00Z'', notes_str = [], carbs = ascii ''45'',
       insulin = ascii ''3'', glucose = []\<rparr>]) \<noteq> ascii ''7.5''"
  by (simp add: instant_0300 float_3 float_45 fmt1_15 process_report_data_def process_treatment_def
      parse_notes_def empty_result_def carbs_step_def auto_snack_def insulin_step_def bolus_step_def
      correlate_def initial_stats_def tcir_of_def Let_def double_ev)

text \<open>
  C4, amended. In both files \<open>tcir\<close> is computed from the totals that the loop over the
  treatments has accumulated (in \<open>app.py\<close> before \<open>total_insulin\<close> is rounded for
  display). It is the placeholder \<open>-\<close> exactly when the accumulated bolus total is not
  greater than 0 (zero, negative or a NaN). Otherwise it is the float quotient
  \<open>total_carbs / total_insulin\<close> (for finite totals the exact quotient rounded to the
  nearest double) in the format \<open>.1f\<close>: for a finite quotient a sign if negative, digits,
  a point and one digit, reading as the quotient rounded to the nearest tenth; \<open>inf\<close>,
  \<open>-inf\<close> or \<open>nan\<close> for a quotient that is not finite. The totals 45 and 3 give
  \<open>15.0\<close>; the totals 7 and 20 give \<open>0.3\<close>, since the double nearest to 0.35 lies
  below it.
\<close>

theorem tcir_placeholder_or_one_decimal:
  "tcir (process_report_data fromiso pf entries treatments) =
     tcir_of (fst (treatments_loop fromiso pf entries (sort_key created_at treatments)
                     (initial_stats entries, []))) \<and>
   (prepare_report_data fromiso pf entries treatments = Inr r \<longrightarrow>
      (\<exists>res. legacy_loop fromiso pf entries (sort_key created_at treatments)
                (initial_stats entries, []) = Inr res \<and> tcir r = tcir_of (fst res))) \<and>
   (tcir_of st = dash \<longleftrightarrow> \<not> positive (total_insulin st)) \<and>
   (positive (total_insulin st) \<longrightarrow>
      tcir_of st = fmt1 (fdiv (total_carbs st) (total_insulin st))) \<and>
   (positive y \<longleftrightarrow> y = PosInf \<or> (\<exists>b. y = Fin b \<and> 0 < b)) \<and>
   (a \<noteq> 0 \<longrightarrow> fdiv (Fin a) (Fin b) = to_double (a / b)) \<and>
   (to_double q = Fin d \<longrightarrow> \<bar>d - q\<bar> \<le> pow2 (ulp_exp \<bar>q\<bar>) / 2) \<and>
   (x = NaN \<and> fmt1 x = ascii ''nan'' \<or> x = PosInf \<and> fmt1 x = ascii ''inf'' \<or>
    x = NegInf \<and> fmt1 x = ascii ''-inf'' \<or> x = NegZero \<and> fmt1 x = ascii ''-0.0'' \<or>
    (\<exists>v ds c. x = Fin v \<and> fmt1 x = (if v < 0 then [45] else []) @ ds @ [46, c] \<and> ds \<noteq> [] \<and>
       list_all is_digit ds \<and> is_digit c \<and>
       \<bar>real (10 * digits_val 0 ds + (c - 48)) - \<bar>v\<bar> * 10\<bar> \<le> 1 / 2))"
proof -
  have a: "tcir (process_report_data fromiso pf entries treatments) =
     tcir_of (fst (treatments_loop fromiso pf entries (sort_key created_at treatments)
                     (initial_stats entries, [])))"
    by (simp add: process_report_data_def Let_def)
  have b: "prepare_report_data fromiso pf entries treatments = Inr r \<longrightarrow>
      (\<exists>res. legacy_loop fromiso pf entries (sort_key created_at treatments)
                (initial_stats entries, []) = Inr res \<and> tcir r = tcir_of (fst res))"
    by (auto simp: prepare_report_data_def Let_def split: sum.splits)
  have c: "tcir_of st = dash \<longleftrightarrow> \<not> positive (total_insulin st)"
    using fmt1_not_dash by (auto simp: tcir_of_def)
  have d: "positive (total_insulin st) \<longrightarrow>
      tcir_of st = fmt1 (fdiv (total_carbs st) (total_insulin st))"
    by (simp add: tcir_of_def)
  have e: "a \<noteq> 0 \<longrightarrow> fdiv (Fin a) (Fin b) = to_double (a / b)" by simp
  have f: "to_double q = Fin d \<longrightarrow> \<bar>d - q\<bar> \<le> pow2 (ulp_exp \<bar>q\<bar>) / 2"
    using to_double_nearest [of q d] by blast
  have g: "x = NaN \<and> fmt1 x = ascii ''nan'' \<or> x = PosInf \<and> fmt1 x = ascii ''inf'' \<or>
    x = NegInf \<and> fmt1 x = ascii ''-inf'' \<or> x = NegZero \<and> fmt1 x = ascii ''-0.0'' \<or>
    (\<exists>v ds c. x = Fin v \<and> fmt1 x = (if v < 0 then [45] else []) @ ds @ [46, c] \<and> ds \<noteq> [] \<and>
       list_all is_digit ds \<and> is_digit c \<and>
       \<bar>real (10 * digits_val 0 ds + (c - 48)) - \<bar>v\<bar> * 10\<bar> \<le> 1 / 2)"
  proof (cases x)
    case (Fin v)
    with fmt1_finite_value [of v] show ?thesis by auto
  qed simp_all
  from a b c d positive_iff [of y] e f g show ?thesis by blast
qed

theorem tcir_placeholder_or_one_decimal_witness:
  "tcir_of \<lparr>avg_bg = 0, total_insulin = Fin 3, basal_insulin = Fin 0, total_carbs = Fin 45\<rparr> =
     ascii ''15.0'' \<and>
   tcir_of \<lparr>avg_bg = 0, total_insulin = Fin 20, basal_insulin = Fin 0, total_carbs = Fin 7\<rparr> =
     ascii ''0.3'' \<and>
   tcir_of \<lparr>avg_bg = 0, total_insulin = Fin (- 1), basal_insulin = Fin 0, total_carbs = Fin 45\<rparr> =
     ascii ''-'' \<and>
   tcir_of \<lparr>avg_bg = 0, total_insulin = NaN, basal_insulin = Fin 0, total_carbs = Fin 45\<rparr> =
     ascii ''-''"
proof -
  let ?s1 = "\<lparr>avg_bg = 0, total_insulin = Fin 3, basal_insulin = Fin 0, total_carbs = Fin 45\<rparr>"
  let ?s2 = "\<lparr>avg_bg = 0, total_insulin = Fin 20, basal_insulin = Fin 0, total_carbs = Fin 7\<rparr>"
  let ?s3 = "\<lparr>avg_bg = 0, total_insulin = Fin (- 1), basal_insulin = Fin 0, total_carbs = Fin 45\<rparr>"
  let ?s4 = "\<lparr>avg_bg = 0, total_insulin = NaN, basal_insulin = Fin 0, total_carbs = Fin 45\<rparr>"
  have h1: "positive (total_insulin ?s1)" by simp
  have h2: "positive (total_insulin ?s2)" by simp
  note t1 = tcir_placeholder_or_one_decimal
    [where st = ?s1, THEN conjunct2, THEN conjunct2, THEN conjunct2, THEN conjunct1, THEN mp, OF h1]
  note t2 = tcir_placeholder_or_one_decimal
    [where st = ?s2, THEN conjunct2, THEN conjunct2, THEN conjunct2, THEN conjunct1, THEN mp, OF h2]
  note t3 = tcir_placeholder_or_one_decimal
    [where st = ?s3, THEN conjunct2, THEN conjunct2, THEN conjunct1]
  note t4 = tcir_placeholder_or_one_decimal
    [where st = ?s4, THEN conjunct2, THEN conjunct2, THEN conjunct1]
  from t1 t2 t3 t4 show ?thesis
    by (simp add: double_ev to_double_7_20 fmt1_15 fmt1_7_20 dash_def)
qed

text \<open>
  The same through the whole of \<open>app.py\<close> and of the older file: the carbs 7 and the
  insulin 20 give \<open>0.3\<close>, and the carbs \<open>nan\<close> give \<open>nan\<close>.
\<close>

lemma float_examples [simplified]:
  "py_float (ascii ''7'') = Some (Fin 7)" "py_float (ascii ''20'') = Some (Fin 20)"
  "py_float (ascii ''nan'') = Some NaN"
  by (simp_all add: float_ev)

lemma tcir_binary_rounding:
  "tcir (process_report_data iso_timestamp py_float []
     [\<lparr>created_at = ascii ''2024-01-01T03:00:00Z'', notes_str = [], carbs = ascii ''7'',
       insulin = ascii ''20'', glucose = []\<rparr>]) = ascii ''0.3'' \<and>
   map_sum id tcir (prepare_report_data iso_timestamp py_float []
     [\<lparr>created_at = ascii ''2024-01-01T03:00:00Z'', notes_str = [], carbs = ascii ''7'',
       insulin = ascii ''20'', glucose = []\<rparr>]) = Inr (ascii ''0.3'')"
  by (simp add: instant_0300 float_examples fmt1_7_20 to_double_7_20 process_report_data_def
      prepare_report_data_def process_treatment_def legacy_treatment_def parse_notes_def
      parse_notes_legacy_def empty_result_def stats_ev correlate_def correlate_legacy_def
      initial_stats_def tcir_of_def Let_def double_ev)

lemma tcir_not_a_number:
  "tcir (process_report_data iso_timestamp py_float []
     [\<lparr>created_at = ascii ''2024-01-01T03:00:00Z'', notes_str = [], carbs = ascii ''nan'',
       insulin = ascii ''3'', glucose = []\<rparr>]) = ascii ''nan'' \<and>
   map_sum id tcir (prepare_report_data iso_timestamp py_float []
     [\<lparr>created_at = ascii ''2024-01-01T03:00:00Z'', notes_str = [], carbs = ascii ''nan'',
       insulin = ascii ''3'', glucose = []\<rparr>]) = Inr (ascii ''nan'')"
  by (simp add: instant_0300 float_examples float_3 process_report_data_def
      prepare_report_data_def process_treatment_def legacy_treatment_def parse_notes_def
      parse_notes_legacy_def empty_result_def stats_ev correlate_def correlate_legacy_def
      initial_stats_def tcir_of_def Let_def double_ev)

subsection \<open>Ratio records\<close>

lemma split_ws_nonempty: "t \<in> set (split_ws cur s) \<Longrightarrow> t \<noteq> []"
  by (induction s arbitrary: cur) (auto split: if_splits)

text \<open>A token of \<open>split()\<close> is never empty: \<open>second_part[-1]\<close> in \<open>app.py\<close> cannot raise.\<close>

lemma py_split_nonempty: "t \<in> set (py_split s) \<Longrightarrow> t \<noteq> []"
  unfolding py_split_def by (rule split_ws_nonempty)

text \<open>
  What both files do once the first token (after their own removal of the spellings of
  \<open>cir\<close>) parses as a float and the second token ends in a type letter.
\<close>

lemma cir_branch_type_letter:
  assumes "pf p0 = Some x" and "prep p1 \<noteq> []" and "is_type_letter [last (prep p1)]"
  shows "cir_branch pf prep (p0 # p1 # ps) all_lines rest =
           \<lparr>cir = Some x, predicted_insulin = pf (butlast (prep p1)),
            insulin_type = Some (py_upper [last (prep p1)]), foods = rest, basal_amount = None\<rparr>"
  using assms by (simp add: cir_branch_def second_token_def empty_result_def)

lemma is_type_letter_cases:
  "is_type_letter [c] \<longleftrightarrow> c = 78 \<or> c = 110 \<or> c = 70 \<or> c = 102"
  by (auto simp: is_type_letter_def py_upper_def)

lemma parse_ratio_example [simplified]:
  "parse_notes py_float (ascii ''300 4.5N'') =
     \<lparr>cir = Some (Fin 300), predicted_insulin = Some (Fin (9 / 2)), insulin_type = Some (ascii ''N''),
      foods = [], basal_amount = None\<rparr> \<and>
   parse_notes_legacy py_float (ascii ''300 4.5N'') =
     \<lparr>cir = Some (Fin 300), predicted_insulin = Some (Fin (9 / 2)), insulin_type = Some (ascii ''N''),
      foods = [], basal_amount = None\<rparr>"
  by (simp add: parse_ev float_ev)

text \<open>
  C5. The example of the claim holds in both files (\<open>parse_ratio_example\<close>), but the
  removal of \<open>cir\<close> is not case-insensitive: \<open>app.py\<close> removes the spellings \<open>cir\<close> and
  \<open>CIR\<close> only, while the older file removes \<open>Cir\<close> as well. On the note
  \<open>Cir 300 4.5N\<close> the older file yields the ratio 300, the predicted insulin 4.5 and
  the type \<open>N\<close>; \<open>app.py\<close> yields no ratio, no predicted insulin and no type, and
  keeps the whole line as a food item.
\<close>

theorem parse_notes_capitalised_cir:
  "parse_notes py_float (ascii ''Cir 300 4.5N'') =
     \<lparr>cir = None, predicted_insulin = None, insulin_type = None,
      foods = [ascii ''Cir 300 4.5N''], basal_amount = None\<rparr> \<and>
   parse_notes_legacy py_float (ascii ''Cir 300 4.5N'') =
     \<lparr>cir = Some (Fin 300), predicted_insulin = Some (Fin (9 / 2)), insulin_type = Some (ascii ''N''),
      foods = [], basal_amount = None\<rparr>"
  by (simp add: parse_ev float_ev)

text \<open>Neither file removes the other mixed spellings, such as \<open>cIr\<close>.\<close>

lemma parse_notes_mixed_cir:
  "parse_notes py_float (ascii ''cIr 300 4.5N'') =
     \<lparr>cir = None, predicted_insulin = None, insulin_type = None,
      foods = [ascii ''cIr 300 4.5N''], basal_amount = None\<rparr> \<and>
   parse_notes_legacy py_float (ascii ''cIr 300 4.5N'') =
     \<lparr>cir = None, predicted_insulin = None, insulin_type = None,
      foods = [ascii ''cIr 300 4.5N''], basal_amount = None\<rparr>"
  by (simp add: parse_ev float_ev)

subsection \<open>The automatic snack item\<close>

text \<open>What \<open>app.py\<close> does, for every float parser.\<close>

lemma carbs_step_snack:
  assumes "c \<noteq> []" and "pf c = Some v"
  shows "foods (snd (carbs_step pf c (st, p))) =
           (if snack_range v \<and> \<not> list_ex (sublist snack_marker) (foods p)
            then snack_marker # foods p else foods p)"
    and "total_carbs (fst (carbs_step pf c (st, p))) = fadd (total_carbs st) v"
  using assms by (simp_all add: carbs_step_def auto_snack_def has_hosyoku_def)

lemma carbs_step_no_carbs:
  "c = [] \<or> pf c = None \<Longrightarrow> carbs_step pf c (st, p) = (st, p)"
  by (auto simp: carbs_step_def)

text \<open>The rule does not fire twice: after the insertion an item carries the marker.\<close>

lemma auto_snack_once: "auto_snack has_hosyoku v (auto_snack has_hosyoku v p) = auto_snack has_hosyoku v p"
  by (simp add: auto_snack_def has_hosyoku_def)

text \<open>Carbs outside the closed interval from 1 to 3, or not a number, never trigger it.\<close>

lemma snack_range_iff: "snack_range v \<longleftrightarrow> (\<exists>a. v = Fin a \<and> 1 \<le> a \<and> a \<le> 3)"
  by (cases v) auto

lemma float_2 [simplified]: "py_float (ascii ''2'') = Some (Fin 2)"
  by (simp add: float_ev)

lemma parse_split_marker [simplified]:
  "parse_notes py_float (ascii ''abc'' @ [35036, 10, 39135] @ ascii ''def'') =
     \<lparr>cir = None, predicted_insulin = None, insulin_type = None,
      foods = [ascii ''abc'' @ [35036], [39135] @ ascii ''def''], basal_amount = None\<rparr> \<and>
   parse_notes_legacy py_float (ascii ''abc'' @ [35036, 10, 39135] @ ascii ''def'') =
     \<lparr>cir = None, predicted_insulin = None, insulin_type = None,
      foods = [ascii ''abc'' @ [35036], [39135] @ ascii ''def''], basal_amount = None\<rparr>"
  by (simp add: parse_ev float_ev)

text \<open>
  C7. \<open>app.py\<close> does what the claim says (\<open>carbs_step_snack\<close>, \<open>auto_snack_once\<close>):
  it asks whether some item contains the snack marker. The older file asks whether the
  concatenation of the items contains it. For the note with the two lines \<open>abc\<close> plus
  the first character of the marker and the second character of the marker plus \<open>def\<close>,
  and carbs \<open>2\<close>, no item contains the marker; \<open>app.py\<close> puts the snack item in front,
  the older file does not.
\<close>

theorem snack_marker_across_items:
  "\<not> list_ex (sublist snack_marker) [ascii ''abc'' @ [35036], [39135] @ ascii ''def''] \<and>
   map row_food (table_data (process_report_data iso_timestamp py_float []
     [\<lparr>created_at = ascii ''2024-01-01T03:00:00Z'',
       notes_str = ascii ''abc'' @ [35036, 10, 39135] @ ascii ''def'',
       carbs = ascii ''2'', insulin = [], glucose = []\<rparr>])) =
     [snack_marker @ ascii '', abc'' @ [35036] @ ascii '', '' @ [39135] @ ascii ''def''] \<and>
   map_sum id (map row_food \<circ> table_data) (prepare_report_data iso_timestamp py_float []
     [\<lparr>created_at = ascii ''2024-01-01T03:00:00Z'',
       notes_str = ascii ''abc'' @ [35036, 10, 39135] @ ascii ''def'',
       carbs = ascii ''2'', insulin = [], glucose = []\<rparr>]) =
     Inr [ascii ''abc'' @ [35036] @ ascii '', '' @ [39135] @ ascii ''def'']"
  by (simp add: instant_0300 float_2 parse_split_marker hhmm_1200 report_ev process_treatment_def
      legacy_treatment_def stats_ev correlate_def correlate_legacy_def row_ev sublist_code
      double_ev)

subsection \<open>The nearest reading\<close>

lemma min_pair_least:
  "min_pair b ps \<in> set (b # ps) \<and> (\<forall>q \<in> set (b # ps). fst (min_pair b ps) \<le> fst q)"
proof (induction ps arbitrary: b)
  case Nil
  show ?case by simp
next
  case (Cons p ps)
  from Cons.IH [of "if fst p < fst b then p else b"] show ?case
    by (auto split: if_splits)
qed

lemma keyed_Some:
  "keyed fromiso t es = Some ks \<Longrightarrow>
     map snd ks = es \<and>
     (\<forall>q \<in> set ks. \<exists>u. instant fromiso (dateString (snd q)) = Some u \<and> fst q = \<bar>u - t\<bar>)"
proof (induction es arbitrary: ks)
  case Nil
  then show ?case by simp
next
  case (Cons e es)
  then show ?case by (auto split: option.splits)
qed

lemma keyed_None:
  "keyed fromiso t es = None \<longleftrightarrow> (\<exists>e \<in> set es. instant fromiso (dateString e) = None)"
  by (induction es) (auto split: option.splits)

text \<open>
  The correlator of \<open>app.py\<close>, when every reading parses: it matches a reading whose
  distance from the treatment is the least, and attaches its display only when that
  distance is below 900 seconds.
\<close>

lemma correlate_nearest:
  assumes ne: "es \<noteq> []" and ok: "\<forall>e \<in> set es. instant fromiso (dateString e) \<noteq> None"
  shows "\<exists>e \<in> set es. \<exists>u. instant fromiso (dateString e) = Some u \<and>
           (\<forall>e' \<in> set es. \<forall>u'. instant fromiso (dateString e') = Some u' \<longrightarrow> \<bar>u - t\<bar> \<le> \<bar>u' - t\<bar>) \<and>
           correlate fromiso t es = Inr (if \<bar>u - t\<bar> < 900 then cgm_display e else [])"
proof -
  from ok have "keyed fromiso t es \<noteq> None" by (simp add: keyed_None)
  then obtain ks where ks: "keyed fromiso t es = Some ks" by blast
  note k = keyed_Some [OF ks]
  from k ne obtain p ps where pps: "ks = p # ps" by (cases ks) auto
  define m where "m = min_pair p ps"
  from min_pair_least [of p ps] have mem: "m \<in> set ks" and least: "\<forall>q \<in> set ks. fst m \<le> fst q"
    by (simp_all add: m_def pps)
  from k mem obtain u where u: "instant fromiso (dateString (snd m)) = Some u" "fst m = \<bar>u - t\<bar>"
    by blast
  from k mem have in_es: "snd m \<in> set es" by (metis image_eqI set_map)
  have min: "\<forall>e' \<in> set es. \<forall>u'. instant fromiso (dateString e') = Some u' \<longrightarrow> \<bar>u - t\<bar> \<le> \<bar>u' - t\<bar>"
  proof (intro ballI allI impI)
    fix e' u'
    assume e': "e' \<in> set es" and u': "instant fromiso (dateString e') = Some u'"
    from e' k obtain q where q: "q \<in> set ks" "snd q = e'" by (metis imageE set_map)
    with k u' have "fst q = \<bar>u' - t\<bar>" by fastforce
    with least q u show "\<bar>u - t\<bar> \<le> \<bar>u' - t\<bar>" by fastforce
  qed
  have "correlate fromiso t es = Inr (if \<bar>u - t\<bar> < 900 then cgm_display (snd m) else [])"
    using ne ks pps u by (simp add: correlate_def Let_def m_def [symmetric])
  with in_es u min show ?thesis by blast
qed

lemma correlate_no_readings: "correlate fromiso t [] = Inr []"
  by (simp add: correlate_def)

text \<open>In \<open>app.py\<close> one reading with an unparseable time makes the correlator raise.\<close>

lemma correlate_fault:
  "correlate fromiso t es = Inl ValueError \<longleftrightarrow> (\<exists>e \<in> set es. instant fromiso (dateString e) = None)"
proof (cases "keyed fromiso t es")
  case None
  then have bad: "\<exists>e \<in> set es. instant fromiso (dateString e) = None" by (simp add: keyed_None)
  then have "es \<noteq> []" by auto
  with None bad show ?thesis by (simp add: correlate_def)
next
  case (Some ks)
  then have "\<not> (\<exists>e \<in> set es. instant fromiso (dateString e) = None)"
    using keyed_None [of fromiso t es] by simp
  with Some show ?thesis by (auto simp: correlate_def Let_def split: list.splits)
qed

lemma instant_0316 [simplified]:
  "instant iso_timestamp (ascii ''2024-01-01T03:16:40Z'') = Some 1704079000"
  by (simp add: iso_ev)

lemma instant_0253 [simplified]:
  "instant iso_timestamp (ascii ''2024-01-01T02:53:20Z'') = Some 1704077600"
  by (simp add: iso_ev)

lemma instant_garbled [simplified]:
  "instant iso_timestamp (ascii ''yesterday'') = None"
  by (simp add: iso_ev)

lemma str_int_values: "str_int 120 = ascii ''120''" "str_int 140 = ascii ''140''"
  by (simp_all add: str_ev)

text \<open>The example of the specification, in \<open>app.py\<close>: the reading 400 s before wins.\<close>

lemma correlate_example:
  "correlate iso_timestamp 1704078000
     [\<lparr>dateString = ascii ''2024-01-01T02:53:20Z'', sgv = Some 120, direction = [], delta = None\<rparr>,
      \<lparr>dateString = ascii ''2024-01-01T03:16:40Z'', sgv = Some 140, direction = [], delta = None\<rparr>] =
     Inr (ascii ''120 '') \<and>
   correlate iso_timestamp 1704078000
     [\<lparr>dateString = ascii ''2024-01-01T03:16:40Z'', sgv = Some 140, direction = [], delta = None\<rparr>] =
     Inr []"
  by (simp add: instant_0316 instant_0253 correlate_def cgm_display_def delta_str_def Let_def
      str_int_values [simplified])

text \<open>
  C1. \<open>app.py\<close> matches a nearest reading and attaches nothing at 900 s or more
  (\<open>correlate_nearest\<close>, \<open>correlate_no_readings\<close>). The older file has no test of the
  distance: with one reading, 1000 s after the treatment and with the value 140, it
  shows \<open>140\<close> in the row, where \<open>app.py\<close> shows the placeholder.
\<close>

theorem legacy_attaches_distant_reading:
  "map_sum id (map row_bg \<circ> table_data) (prepare_report_data iso_timestamp py_float
     [\<lparr>dateString = ascii ''2024-01-01T03:16:40Z'', sgv = Some 140, direction = [], delta = None\<rparr>]
     [\<lparr>created_at = ascii ''2024-01-01T03:00:00Z'', notes_str = [], carbs = [], insulin = [],
       glucose = []\<rparr>]) = Inr [ascii ''140''] \<and>
   map row_bg (table_data (process_report_data iso_timestamp py_float
     [\<lparr>dateString = ascii ''2024-01-01T03:16:40Z'', sgv = Some 140, direction = [], delta = None\<rparr>]
     [\<lparr>created_at = ascii ''2024-01-01T03:00:00Z'', notes_str = [], carbs = [], insulin = [],
       glucose = []\<rparr>])) = [ascii ''-'']"
  by (simp add: instant_0300 instant_0316 hhmm_1200 str_int_values [simplified] report_ev
      process_treatment_def legacy_treatment_def parse_notes_def parse_notes_legacy_def
      empty_result_def stats_ev correlate_def correlate_legacy_def cgm_display_def
      cgm_display_legacy_def delta_str_def build_row_def or_dash_def num_cell_def add_measured_def
      dash_def)

text \<open>
  Where \<open>app.py\<close> does skip one record: a treatment with an unparseable time changes
  nothing, and when every reading parses, a treatment with a parseable time adds its row.
\<close>

lemma process_treatment_unparseable:
  "instant fromiso (created_at t) = None \<Longrightarrow> process_treatment fromiso pf entries t acc = acc"
  by (simp add: process_treatment_def)

lemma process_treatment_adds_row:
  assumes "instant fromiso (created_at t) = Some dt"
    and "\<forall>e \<in> set entries. instant fromiso (dateString e) \<noteq> None"
  shows "length (snd (process_treatment fromiso pf entries t acc)) = Suc (length (snd acc))"
proof -
  from assms(2) have "correlate fromiso dt entries \<noteq> Inl ValueError"
    by (simp add: correlate_fault)
  then obtain cgm where "correlate fromiso dt entries = Inr cgm"
    by (cases "correlate fromiso dt entries") (auto intro: fault.exhaust)
  with assms(1) show ?thesis by (simp add: process_treatment_def Let_def)
qed

text \<open>
  C2. Neither file keeps every remaining row. In \<open>app.py\<close> the correlator parses the
  time of every reading again for every treatment, inside the \<open>try\<close> of the row: one
  reading with an unparseable time drops the row of every treatment (the chart passes
  over that reading alone), while the carbs of the dropped row are already in the totals.
  In the older file the parse of \<open>created_at\<close> is outside every \<open>try\<close>: one treatment
  with an unparseable time ends the run with the error.
\<close>

theorem unparseable_time_drops_rows:
  "table_data (process_report_data iso_timestamp py_float
     [\<lparr>dateString = ascii ''yesterday'', sgv = Some 100, direction = [], delta = None\<rparr>,
      \<lparr>dateString = ascii ''2024-01-01T02:53:20Z'', sgv = Some 120, direction = [], delta = None\<rparr>]
     [\<lparr>created_at = ascii ''2024-01-01T03:00:00Z'', notes_str = [], carbs = ascii ''45'',
       insulin = [], glucose = []\<rparr>]) = [] \<and>
   total_carbs (process_report_data iso_timestamp py_float
     [\<lparr>dateString = ascii ''yesterday'', sgv = Some 100, direction = [], delta = None\<rparr>,
      \<lparr>dateString = ascii ''2024-01-01T02:53:20Z'', sgv = Some 120, direction = [], delta = None\<rparr>]
     [\<lparr>created_at = ascii ''2024-01-01T03:00:00Z'', notes_str = [], carbs = ascii ''45'',
       insulin = [], glucose = []\<rparr>]) = Fin 45 \<and>
   chart_bgs (process_report_data iso_timestamp py_float
     [\<lparr>dateString = ascii ''yesterday'', sgv = Some 100, direction = [], delta = None\<rparr>,
      \<lparr>dateString = ascii ''2024-01-01T02:53:20Z'', sgv = Some 120, direction = [], delta = None\<rparr>]
     [\<lparr>created_at = ascii ''2024-01-01T03:00:00Z'', notes_str = [], carbs = ascii ''45'',
       insulin = [], glucose = []\<rparr>]) = [120] \<and>
   prepare_report_data iso_timestamp py_float []
     [\<lparr>created_at = ascii ''2024-01-01T03:00:00Z'', notes_str = [], carbs = ascii ''45'',
       insulin = [], glucose = []\<rparr>,
      \<lparr>created_at = ascii ''yesterday'', notes_str = [], carbs = [], insulin = [],
       glucose = []\<rparr>] = Inl ValueError"
  by (simp add: instant_0300 instant_0253 instant_garbled float_45 hhmm_1200 report_ev
      process_treatment_def legacy_treatment_def parse_notes_def parse_notes_legacy_def
      empty_result_def stats_ev correlate_def correlate_legacy_def build_row_def or_dash_def
      num_cell_def add_measured_def dash_def double_ev)

subsection \<open>The order of the readings and of the treatments\<close>

lemma set_map_filter: "set (List.map_filter f xs) = {v. \<exists>x \<in> set xs. f x = Some v}"
  by (induction xs) (auto simp: List.map_filter_simps split: option.splits)

lemma sorted_map_filter:
  assumes "sorted_wrt R xs"
    and "\<forall>a \<in> set xs. \<forall>b \<in> set xs. \<forall>u v. R a b \<and> f a = Some u \<and> f b = Some v \<longrightarrow> u \<le> v"
  shows "sorted (List.map_filter f xs :: real list)"
  using assms
proof (induction xs)
  case Nil
  show ?case by (simp add: List.map_filter_simps)
next
  case (Cons x xs)
  from Cons.prems have tl: "sorted (List.map_filter f xs)"
    by (intro Cons.IH) auto
  show ?case
  proof (cases "f x")
    case None
    with tl show ?thesis by (simp add: List.map_filter_simps)
  next
    case (Some u)
    have "\<forall>v \<in> set (List.map_filter f xs). u \<le> v"
    proof
      fix v
      assume "v \<in> set (List.map_filter f xs)"
      then obtain b where b: "b \<in> set xs" "f b = Some v" by (auto simp: set_map_filter)
      with Cons.prems(1) have "R x b" by simp
      with Cons.prems(2) Some b show "u \<le> v" by (meson list.set_intros)
    qed
    with tl Some show ?thesis by (simp add: List.map_filter_simps)
  qed
qed

lemma instant_0930_jst [simplified]:
  "instant iso_timestamp (ascii ''2024-01-01T09:30:00+09:00'') = Some 1704069000"
  by (simp add: iso_ev)

lemma instant_0100 [simplified]:
  "instant iso_timestamp (ascii ''2024-01-01T01:00:00Z'') = Some 1704070800"
  by (simp add: iso_ev)

lemma hhmm_chart [simplified]:
  "hhmm_jst 1704069000 = ascii ''09:30''" "hhmm_jst 1704070800 = ascii ''10:00''"
  "hhmm_jst 1704077600 = ascii ''11:53''" "hhmm_jst 1704079000 = ascii ''12:16''"
  by (simp_all add: hhmm_jst_def pad2_def str_ev)

text \<open>
  Both sorts are stable sorts on the text of the timestamp: records with the same text
  keep their input order and no record is lost or added. Where the order of the texts
  agrees with the order of the instants they denote (as it does when all timestamps are
  written in one format with one offset), the readings are processed in chronological
  order.
\<close>

lemma sort_by_timestamp_text:
  "sorted (map dateString (sort_key dateString es)) \<and>
   set (sort_key dateString es) = set es \<and> length (sort_key dateString es) = length es \<and>
   filter (\<lambda>e. dateString e = k) (sort_key dateString es) = filter (\<lambda>e. dateString e = k) es \<and>
   sorted (map created_at (sort_key created_at ts)) \<and>
   set (sort_key created_at ts) = set ts \<and> length (sort_key created_at ts) = length ts \<and>
   filter (\<lambda>t. created_at t = k) (sort_key created_at ts) = filter (\<lambda>t. created_at t = k) ts"
  by (simp add: sort_key_stable)

lemma chronological_when_texts_agree:
  assumes "\<forall>a \<in> set es. \<forall>b \<in> set es. \<forall>u v.
        dateString a \<le> dateString b \<and> instant fromiso (dateString a) = Some u \<and>
        instant fromiso (dateString b) = Some v \<longrightarrow> u \<le> v"
  shows "sorted (List.map_filter (\<lambda>e. instant fromiso (dateString e)) (sort_key dateString es))"
proof -
  have "sorted_wrt (\<lambda>a b. dateString a \<le> dateString b) (sort_key dateString es)"
    using sorted_sort_key [of dateString es] by (simp add: sorted_map)
  then show ?thesis
    by (rule sorted_map_filter) (use assms in simp)
qed

text \<open>
  C9. The key of both sorts is the text of the timestamp, not the instant, although the
  older file's comment calls the order chronological and the chart is drawn in that
  order. A record written 09:30 with the offset +09:00 (00:30 UTC) is earlier than one
  written 01:00 UTC, but its text is the greater one: in both files the chart shows the
  earlier reading second, and the table shows the earlier treatment second.
\<close>

theorem mixed_offsets_out_of_order:
  "instant iso_timestamp (ascii ''2024-01-01T09:30:00+09:00'') = Some 1704069000 \<and>
   instant iso_timestamp (ascii ''2024-01-01T01:00:00Z'') = Some 1704070800 \<and>
   chart_bgs (process_report_data iso_timestamp py_float
     [\<lparr>dateString = ascii ''2024-01-01T09:30:00+09:00'', sgv = Some 100, direction = [], delta = None\<rparr>,
      \<lparr>dateString = ascii ''2024-01-01T01:00:00Z'', sgv = Some 110, direction = [], delta = None\<rparr>]
     [\<lparr>created_at = ascii ''2024-01-01T09:30:00+09:00'', notes_str = [], carbs = [], insulin = [],
       glucose = []\<rparr>,
      \<lparr>created_at = ascii ''2024-01-01T01:00:00Z'', notes_str = [], carbs = [], insulin = [],
       glucose = []\<rparr>]) = [110, 100] \<and>
   chart_times (process_report_data iso_timestamp py_float
     [\<lparr>dateString = ascii ''2024-01-01T09:30:00+09:00'', sgv = Some 100, direction = [], delta = None\<rparr>,
      \<lparr>dateString = ascii ''2024-01-01T01:00:00Z'', sgv = Some 110, direction = [], delta = None\<rparr>]
     [\<lparr>created_at = ascii ''2024-01-01T09:30:00+09:00'', notes_str = [], carbs = [], insulin = [],
       glucose = []\<rparr>,
      \<lparr>created_at = ascii ''2024-01-01T01:00:00Z'', notes_str = [], carbs = [], insulin = [],
       glucose = []\<rparr>]) = [ascii ''10:00'', ascii ''09:30''] \<and>
   map row_time (table_data (process_report_data iso_timestamp py_float
     [\<lparr>dateString = ascii ''2024-01-01T09:30:00+09:00'', sgv = Some 100, direction = [], delta = None\<rparr>,
      \<lparr>dateString = ascii ''2024-01-01T01:00:00Z'', sgv = Some 110, direction = [], delta = None\<rparr>]
     [\<lparr>created_at = ascii ''2024-01-01T09:30:00+09:00'', notes_str = [], carbs = [], insulin = [],
       glucose = []\<rparr>,
      \<lparr>created_at = ascii ''2024-01-01T01:00:00Z'', notes_str = [], carbs = [], insulin = [],
       glucose = []\<rparr>])) = [ascii ''10:00'', ascii ''09:30''] \<and>
   map_sum id (\<lambda>rep. (chart_times rep, map row_time (table_data rep)))
     (prepare_report_data iso_timestamp py_float
     [\<lparr>dateString = ascii ''2024-01-01T09:30:00+09:00'', sgv = Some 100, direction = [], delta = None\<rparr>,
      \<lparr>dateString = ascii ''2024-01-01T01:00:00Z'', sgv = Some 110, direction = [], delta = None\<rparr>]
     [\<lparr>created_at = ascii ''2024-01-01T09:30:00+09:00'', notes_str = [], carbs = [], insulin = [],
       glucose = []\<rparr>,
      \<lparr>created_at = ascii ''2024-01-01T01:00:00Z'', notes_str = [], carbs = [], insulin = [],
       glucose = []\<rparr>]) =
     Inr ([ascii ''10:00'', ascii ''09:30''], [ascii ''10:00'', ascii ''09:30''])"
  by (simp add: instant_0930_jst instant_0100 hhmm_chart process_report_data_def
      prepare_report_data_def chart_data_def chart_point_def List.map_filter_def
      process_treatment_def legacy_treatment_def parse_notes_def parse_notes_legacy_def
      empty_result_def stats_ev correlate_def correlate_legacy_def cgm_display_def
      cgm_display_legacy_def delta_str_def build_row_def Let_def)

end
